theory Spec2Isabelle
  imports Main "HOL-Library.Word"
begin

chapter \<open>Credential, session and notification core of the account monitor\<close>

text \<open>
  A shallow embedding of \<^verbatim>\<open>session-store.js\<close>, \<^verbatim>\<open>notifications.js\<close>,
  \<^verbatim>\<open>password-utils.js\<close>, the storage module \<^verbatim>\<open>db.js\<close> (both revisions found in
  the sources) and the handlers of \<^verbatim>\<open>server.js\<close> that call them. Module-level variables
  become fields of a state record that every function takes and returns; the clock
  (\<^verbatim>\<open>Date.now()\<close>), the random bytes, the cipher, the password hash, the endpoints
  behind the network, the conversions between numbers and decimal columns, and the
  failures of the database and of the disk are parameters of the functions that use
  them. Times are milliseconds since the epoch, as \<^verbatim>\<open>Date.now()\<close> gives them.
\<close>

section \<open>Session store (session-store.js)\<close>

record session =
  userId :: string
  createdAt :: int
  expiresAt :: int

definition SESSION_DURATION :: int where
  "SESSION_DURATION = 10 * 24 * 60 * 60 * 1000"

definition SESSION_PREFIX :: string where
  "SESSION_PREFIX = ''session:''"

text \<open>
  The Redis server as the module uses it: a table from key to value and absolute
  expiry time. \<^verbatim>\<open>SETEX\<close> stores a value with a time to live in seconds, \<^verbatim>\<open>GET\<close>
  answers only while the key has not expired, \<^verbatim>\<open>DEL\<close> removes the key. The value is
  the session itself: \<^verbatim>\<open>JSON.parse(JSON.stringify(session))\<close> gives back a record of
  one string and two integers unchanged. The server reads the same clock as the
  process and answers every command.
\<close>

type_synonym redis = "string \<rightharpoonup> (session \<times> int)"

definition redis_setex :: "redis \<Rightarrow> int \<Rightarrow> string \<Rightarrow> int \<Rightarrow> session \<Rightarrow> redis" where
  "redis_setex r now key seconds v = r(key \<mapsto> (v, now + seconds * 1000))"

definition redis_get :: "redis \<Rightarrow> int \<Rightarrow> string \<Rightarrow> session option" where
  "redis_get r now key =
     (case r key of
        None \<Rightarrow> None
      | Some (v, deadline) \<Rightarrow> if now > deadline then None else Some v)"

definition redis_del :: "redis \<Rightarrow> string \<Rightarrow> redis" where
  "redis_del r key = r(key := None)"

text \<open>
  The module variables \<^verbatim>\<open>redisClient\<close> (\<open>None\<close> is \<^verbatim>\<open>null\<close>), \<^verbatim>\<open>isRedisEnabled\<close>
  and \<^verbatim>\<open>memorySessions\<close>.
\<close>

record session_store =
  redisClient :: "redis option"
  isRedisEnabled :: bool
  memorySessions :: "string \<rightharpoonup> session"

definition hexdigit :: "nat \<Rightarrow> char" where
  "hexdigit n = ''0123456789abcdef'' ! (n mod 16)"

definition toHex :: "8 word list \<Rightarrow> string" where
  "toHex bytes = concat (map (\<lambda>b. [hexdigit (unat b div 16), hexdigit (unat b)]) bytes)"

text \<open>\<^verbatim>\<open>'session_' + crypto.randomBytes(32).toString('hex')\<close>; the bytes drawn are a parameter.\<close>

definition generateSessionToken :: "8 word list \<Rightarrow> string" where
  "generateSessionToken bytes = ''session_'' @ toHex bytes"

text \<open>
  \<^verbatim>\<open>createSession(userId = 'admin')\<close>: \<open>None\<close> is the omitted argument. The result
  is the token and the store after the call.
\<close>

definition createSession ::
  "session_store \<Rightarrow> 8 word list \<Rightarrow> int \<Rightarrow> string option \<Rightarrow> string \<times> session_store" where
  "createSession st bytes now uid =
     (let token = generateSessionToken bytes;
          session = \<lparr>userId = (case uid of None \<Rightarrow> ''admin'' | Some u \<Rightarrow> u),
                     createdAt = now,
                     expiresAt = now + SESSION_DURATION\<rparr>
      in case redisClient st of
           Some r \<Rightarrow>
             if isRedisEnabled st
             then (token, st\<lparr>redisClient :=
                     Some (redis_setex r now (SESSION_PREFIX @ token)
                             (SESSION_DURATION div 1000) session)\<rparr>)
             else (token, st\<lparr>memorySessions := (memorySessions st)(token \<mapsto> session)\<rparr>)
         | None \<Rightarrow> (token, st\<lparr>memorySessions := (memorySessions st)(token \<mapsto> session)\<rparr>))"

text \<open>The read at the head of \<^verbatim>\<open>validateSession\<close>: what the active backend holds for a token.\<close>

definition storedSession :: "session_store \<Rightarrow> int \<Rightarrow> string \<Rightarrow> session option" where
  "storedSession st now token =
     (case redisClient st of
        Some r \<Rightarrow>
          if isRedisEnabled st then redis_get r now (SESSION_PREFIX @ token)
          else memorySessions st token
      | None \<Rightarrow> memorySessions st token)"

definition destroySession :: "session_store \<Rightarrow> string \<Rightarrow> session_store" where
  "destroySession st token =
     (case redisClient st of
        Some r \<Rightarrow>
          if isRedisEnabled st
          then st\<lparr>redisClient := Some (redis_del r (SESSION_PREFIX @ token))\<rparr>
          else st\<lparr>memorySessions := (memorySessions st)(token := None)\<rparr>
      | None \<Rightarrow> st\<lparr>memorySessions := (memorySessions st)(token := None)\<rparr>)"

text \<open>
  \<^verbatim>\<open>validateSession(token)\<close>: the token is \<open>None\<close> for \<^verbatim>\<open>null\<close> or \<^verbatim>\<open>undefined\<close>;
  \<^verbatim>\<open>!token\<close> also holds for the empty string. The result \<open>None\<close> is \<^verbatim>\<open>null\<close>.
\<close>

definition validateSession ::
  "session_store \<Rightarrow> int \<Rightarrow> string option \<Rightarrow> session option \<times> session_store" where
  "validateSession st now token =
     (case token of
        None \<Rightarrow> (None, st)
      | Some t \<Rightarrow>
          if t = [] then (None, st)
          else (case storedSession st now t of
                  None \<Rightarrow> (None, st)
                | Some s \<Rightarrow>
                    if now > expiresAt s then (None, destroySession st t)
                    else (Some s, st)))"

text \<open>\<^verbatim>\<open>cleanExpiredSessions()\<close>, the hourly sweep of the in-memory map.\<close>

definition cleanExpiredSessions :: "session_store \<Rightarrow> int \<Rightarrow> session_store" where
  "cleanExpiredSessions st now =
     (if isRedisEnabled st then st
      else st\<lparr>memorySessions :=
             (\<lambda>token. case memorySessions st token of
                         None \<Rightarrow> None
                       | Some s \<Rightarrow> if now > expiresAt s then None else Some s)\<rparr>)"

text \<open>
  A call of the module's interface, and a run of calls, each at its own clock
  reading. The backend is chosen once at start-up; no call listed here changes it.
\<close>

datatype session_call =
    CreateSession "8 word list" "string option"
  | ValidateSession "string option"
  | DestroySession string
  | CleanExpiredSessions

fun session_step :: "session_store \<Rightarrow> int \<times> session_call \<Rightarrow> session_store" where
  "session_step st (now, CreateSession bytes uid) = snd (createSession st bytes now uid)"
| "session_step st (now, ValidateSession token) = snd (validateSession st now token)"
| "session_step st (now, DestroySession token) = destroySession st token"
| "session_step st (now, CleanExpiredSessions) = cleanExpiredSessions st now"

definition session_run :: "session_store \<Rightarrow> (int \<times> session_call) list \<Rightarrow> session_store" where
  "session_run st calls = foldl session_step st calls"

fun creates :: "string \<Rightarrow> int \<times> session_call \<Rightarrow> bool" where
  "creates t (now, CreateSession bytes uid) = (generateSessionToken bytes = t)"
| "creates t (now, other) = False"


section \<open>Notifications (notifications.js)\<close>

text \<open>
  A webhook registration, as \<^verbatim>\<open>server.js\<close> builds it and as the storage module keeps
  it. Field names carry the prefix \<open>wh_\<close>; an absent or \<^verbatim>\<open>null\<close> field is \<open>None\<close>.
\<close>

record webhook_config =
  wh_id :: string
  wh_userId :: "nat option"
  wh_name :: "string option"
  wh_url :: string
  wh_secret :: "string option"
  wh_events :: "string list option"
  wh_enabled :: bool
  wh_createdAt :: int

text \<open>
  The request that \<^verbatim>\<open>sendToWebhook\<close> hands to the HTTP client: the target URL, the
  headers in the order the source lists them, and the body. A header value is a
  string, a number, or \<^verbatim>\<open>undefined\<close>.
\<close>

datatype header_value = HString string | HNumber nat | HUndefined

record http_request =
  rq_url :: string
  rq_headers :: "(string \<times> header_value) list"
  rq_timeout :: nat
  rq_body :: string

text \<open>
  What becomes of a request: the endpoint answers with a status and a body, the
  request emits \<^verbatim>\<open>error\<close>, it emits \<^verbatim>\<open>timeout\<close>, or the construction of the URL or of
  the request throws inside the promise executor.
\<close>

datatype http_outcome =
    Response nat string
  | ErrorEvent string
  | TimeoutEvent
  | Throws string

datatype delivery_error =
    HttpStatus nat string
  | RequestError string
  | RequestTimeout
  | Thrown string

datatype settled = Fulfilled nat string | Rejected delivery_error

fun fulfilled :: "settled \<Rightarrow> bool" where
  "fulfilled (Fulfilled status body) = True"
| "fulfilled (Rejected e) = False"

fun rejected :: "settled \<Rightarrow> bool" where
  "rejected (Fulfilled status body) = False"
| "rejected (Rejected e) = True"

text \<open>JavaScript truthiness of an optional string: present and not empty.\<close>

definition truthy :: "string option \<Rightarrow> bool" where
  "truthy v = (case v of None \<Rightarrow> False | Some s \<Rightarrow> s \<noteq> [])"

text \<open>
  \<^verbatim>\<open>sendToWebhook(config, payload)\<close>: first the request it builds, then the
  promise it returns. The HMAC (\<^verbatim>\<open>generateSignature\<close>, hex of HMAC-SHA-256 keyed by
  the secret) and the network with the endpoints behind it are parameters. The
  header \<^verbatim>\<open>X-Webhook-Event\<close> is \<^verbatim>\<open>payload.event\<close> with \<^verbatim>\<open>payload\<close> a string, hence
  \<^verbatim>\<open>undefined\<close>.
\<close>

definition webhookRequest ::
  "(string \<Rightarrow> string \<Rightarrow> string) \<Rightarrow> webhook_config \<Rightarrow> string \<Rightarrow> http_request" where
  "webhookRequest generateSignature config payload =
     (let headers = [(''Content-Type'', HString ''application/json''),
                     (''Content-Length'', HNumber (length payload)),
                     (''User-Agent'', HString ''Zeabur-Monitor-Webhook/2.0''),
                     (''X-Webhook-Event'', HUndefined)];
          headers = (case wh_secret config of
                       None \<Rightarrow> headers
                     | Some secret \<Rightarrow>
                         if secret = [] then headers
                         else headers @
                           [(''X-Webhook-Signature'',
                             HString (generateSignature payload secret))])
      in \<lparr>rq_url = wh_url config, rq_headers = headers,
          rq_timeout = 10000, rq_body = payload\<rparr>)"

text \<open>
  \<^verbatim>\<open>client.request(options, callback)\<close> of the runtime's \<^verbatim>\<open>http\<close> and \<^verbatim>\<open>https\<close>
  modules. It stores the headers of the options before anything is sent and throws
  \<^verbatim>\<open>ERR_HTTP_INVALID_HEADER_VALUE\<close> for a header whose value is \<^verbatim>\<open>undefined\<close>. For a
  request it accepts, the exchange with the endpoint decides.
\<close>

definition client_request ::
  "(http_request \<Rightarrow> http_outcome) \<Rightarrow> http_request \<Rightarrow> http_outcome" where
  "client_request endpoint rq =
     (if list_ex (\<lambda>header. snd header = HUndefined) (rq_headers rq)
      then Throws ''ERR_HTTP_INVALID_HEADER_VALUE''
      else endpoint rq)"

definition sendToWebhook ::
  "(string \<Rightarrow> string \<Rightarrow> string) \<Rightarrow> (http_request \<Rightarrow> http_outcome) \<Rightarrow>
   webhook_config \<Rightarrow> string \<Rightarrow> settled" where
  "sendToWebhook generateSignature endpoint config payload =
     (case client_request endpoint (webhookRequest generateSignature config payload) of
        Response status body \<Rightarrow>
          if 200 \<le> status \<and> status < 300 then Fulfilled status body
          else Rejected (HttpStatus status body)
      | ErrorEvent m \<Rightarrow> Rejected (RequestError m)
      | TimeoutEvent \<Rightarrow> Rejected RequestTimeout
      | Throws m \<Rightarrow> Rejected (Thrown m))"

text \<open>
  The filter of \<^verbatim>\<open>sendWebhook\<close>:
  \<^verbatim>\<open>config => !config.events || config.events.includes(event)\<close>. An array, empty or
  not, is truthy.
\<close>

definition subscribed :: "string \<Rightarrow> webhook_config \<Rightarrow> bool" where
  "subscribed event config =
     (case wh_events config of None \<Rightarrow> True | Some events \<Rightarrow> event \<in> set events)"

record webhook_counts =
  success :: nat
  failed :: nat

text \<open>
  \<^verbatim>\<open>sendWebhook(event, data)\<close> over the module variable \<^verbatim>\<open>webhookConfigs\<close>. The
  serialisation of the envelope \<^verbatim>\<open>{event, timestamp, data}\<close> is a parameter.
  \<^verbatim>\<open>Promise.allSettled\<close> gives one result for each delivery, in order.
\<close>

definition deliveries ::
  "(string \<Rightarrow> string \<Rightarrow> string) \<Rightarrow> (http_request \<Rightarrow> http_outcome) \<Rightarrow>
   webhook_config list \<Rightarrow> string \<Rightarrow> string \<Rightarrow> (webhook_config \<times> settled) list" where
  "deliveries generateSignature endpoint webhookConfigs event payload =
     map (\<lambda>config. (config, sendToWebhook generateSignature endpoint config payload))
       (filter (subscribed event) webhookConfigs)"

definition sendWebhook ::
  "(string \<Rightarrow> int \<Rightarrow> 'd \<Rightarrow> string) \<Rightarrow> (string \<Rightarrow> string \<Rightarrow> string) \<Rightarrow>
   (http_request \<Rightarrow> http_outcome) \<Rightarrow> webhook_config list \<Rightarrow> int \<Rightarrow>
   string \<Rightarrow> 'd \<Rightarrow> webhook_counts" where
  "sendWebhook stringify generateSignature endpoint webhookConfigs now event data =
     (let payload = stringify event now data;
          results = map snd (deliveries generateSignature endpoint webhookConfigs event payload)
      in \<lparr>success = length (filter fulfilled results),
          failed = length (filter rejected results)\<rparr>)"

text \<open>\<^verbatim>\<open>setWebhookConfigs(configs)\<close>: \<^verbatim>\<open>configs || []\<close>.\<close>

definition setWebhookConfigs :: "webhook_config list option \<Rightarrow> webhook_config list" where
  "setWebhookConfigs configs = (case configs of None \<Rightarrow> [] | Some cs \<Rightarrow> cs)"

section \<open>Password utilities (password-utils.js)\<close>

definition startsWith :: "string \<Rightarrow> string \<Rightarrow> bool" where
  "startsWith s p = (take (length p) s = p)"

text \<open>
  \<^verbatim>\<open>verifyPassword(password, hash)\<close>; \<^verbatim>\<open>bcrypt.compare\<close> is the parameter
  \<open>compare\<close>.
\<close>

definition verifyPassword :: "(string \<Rightarrow> string \<Rightarrow> bool) \<Rightarrow> string \<Rightarrow> string \<Rightarrow> bool" where
  "verifyPassword compare password hash =
     (if \<not> startsWith hash ''$2'' then password = hash else compare password hash)"

text \<open>\<^verbatim>\<open>isHashed(password)\<close>; \<open>None\<close> is a value that is not a string.\<close>

definition isHashed :: "string option \<Rightarrow> bool" where
  "isHashed password =
     (case password of
        None \<Rightarrow> False
      | Some p \<Rightarrow> if p = [] then False else startsWith p ''$2'')"

definition SALT_ROUNDS :: nat where
  "SALT_ROUNDS = 12"

text \<open>
  \<^verbatim>\<open>hashPassword(password)\<close>; \<^verbatim>\<open>bcrypt.hash\<close>, with the salt it draws, is the
  parameter \<open>hash\<close>.
\<close>

definition hashPassword :: "(string \<Rightarrow> nat \<Rightarrow> string) \<Rightarrow> string \<Rightarrow> string" where
  "hashPassword hash password = hash password SALT_ROUNDS"


section \<open>Storage (db.js)\<close>

subsection \<open>Data\<close>

text \<open>
  An account as callers pass it and as the accounts file keeps it. The type \<open>'c\<close> is
  the structure that \<^verbatim>\<open>encryptData\<close> returns (an object, hence truthy). An absent,
  \<^verbatim>\<open>null\<close> or \<^verbatim>\<open>undefined\<close> field is \<open>None\<close>.
\<close>

record 'c account =
  acc_name :: string
  acc_token :: "string option"
  acc_encryptedToken :: "'c option"

record user =
  usr_id :: nat
  usr_username :: string
  usr_passwordHash :: string
  usr_role :: string
  usr_createdAt :: int

text \<open>
  A usage record as callers pass and receive it; the amount is a number of the
  language, opaque to the module (type \<open>'a\<close>).
\<close>

record 'a usage =
  use_accountName :: string
  use_usageAmount :: 'a
  use_recordedAt :: int

text \<open>
  Rows of the tables that \<^verbatim>\<open>createTables\<close> declares, with the columns the module
  uses. The column \<^verbatim>\<open>usage_amount\<close> is \<^verbatim>\<open>DECIMAL(10, 4)\<close>: it holds a decimal number
  with four places after the point, which the driver hands over as text.
\<close>

record 'c account_row =
  ar_id :: nat
  ar_user_id :: "nat option"
  ar_name :: string
  ar_token :: "string option"
  ar_encrypted_token :: "'c option"

record usage_row =
  ug_id :: nat
  ug_account_name :: string
  ug_usage_amount :: string
  ug_recorded_at :: int

text \<open>
  The PostgreSQL server: the five tables and the sequences behind the \<^verbatim>\<open>SERIAL\<close>
  keys. The \<^verbatim>\<open>users\<close> and \<^verbatim>\<open>webhooks\<close> rows have the fields of \<open>user\<close> and
  \<open>webhook_config\<close>; \<^verbatim>\<open>config\<close> maps a key to its value.
\<close>

record 'c database =
  users :: "user list"
  users_id_seq :: nat
  accounts :: "'c account_row list"
  accounts_id_seq :: nat
  config :: "string \<rightharpoonup> string"
  webhooks :: "webhook_config list"
  usage_history :: "usage_row list"
  usage_history_id_seq :: nat

text \<open>
  A JSON file on disk: it does not exist, it exists and cannot be read, it is read
  and \<^verbatim>\<open>JSON.parse\<close> throws, or it parses to a value. A parsed value has the shape
  the module writes to that file (an array of accounts, of users, of webhooks, of
  usage records; an object for the password).
\<close>

datatype 'v json_file = Missing | Unreadable | Corrupt | Parsed 'v

text \<open>
  The disk: the five files, whether the data directory exists, and whether writes
  go through (\<^verbatim>\<open>fs.writeFileSync\<close> and \<^verbatim>\<open>fs.mkdirSync\<close> throw when they do not).
  The password file holds an object whose \<^verbatim>\<open>password\<close> key may be absent.
\<close>

record ('c, 'a) disk =
  ACCOUNTS_FILE :: "'c account list json_file"
  PASSWORD_FILE :: "string option json_file"
  USERS_FILE :: "user list json_file"
  WEBHOOKS_FILE :: "webhook_config list json_file"
  USAGE_HISTORY_FILE :: "'a usage list json_file"
  DATA_DIR :: bool
  writable :: bool

text \<open>
  The module variables \<^verbatim>\<open>pool\<close> (\<open>True\<close> when not \<^verbatim>\<open>null\<close>) and \<^verbatim>\<open>isDbEnabled\<close>, with
  the server the pool connects to and the local disk.
\<close>

record ('c, 'a) storage =
  pool :: bool
  isDbEnabled :: bool
  server :: "'c database"
  files :: "('c, 'a) disk"

datatype exn = DbError | IoError | UsernameExists | CryptoError

text \<open>
  What the database does to the requests of one call. \<open>connect_fails\<close>:
  \<^verbatim>\<open>pool.connect()\<close> rejects. \<open>query_fails k\<close>: the \<open>k\<close>-th statement of the call
  (from 0) is rejected for a reason outside the tables. \<open>by_driver k\<close>: that rejection
  is the driver's (a parameter it cannot serialise, a connection already lost), so
  the statement never reaches the server; otherwise the server raises an error while
  it executes the statement (limits of a column). An \<^verbatim>\<open>INSERT\<close> that the server
  rejects has taken its \<^verbatim>\<open>SERIAL\<close> key from the sequence, which nothing gives back.
\<close>

record db_faults =
  connect_fails :: bool
  query_fails :: "nat \<Rightarrow> bool"
  by_driver :: "nat \<Rightarrow> bool"

definition isDatabaseEnabled :: "('c, 'a) storage \<Rightarrow> bool" where
  "isDatabaseEnabled st = (isDbEnabled st \<and> pool st)"

text \<open>\<^verbatim>\<open>if (userId)\<close>: neither \<^verbatim>\<open>null\<close> nor 0.\<close>

definition given :: "nat option \<Rightarrow> bool" where
  "given uid = (case uid of None \<Rightarrow> False | Some u \<Rightarrow> u \<noteq> 0)"

subsection \<open>Accounts\<close>

text \<open>
  \<^verbatim>\<open>loadAccounts(encryptionEnabled, decryptFn, secret, userId = null)\<close>. Every path
  ends in \<^verbatim>\<open>return\<close>: the query and the file read sit in \<^verbatim>\<open>try\<close> blocks whose
  handlers fall through to \<^verbatim>\<open>return []\<close>, and each call of \<^verbatim>\<open>decryptFn\<close> has a
  handler of its own.
\<close>

definition decryptRow ::
  "bool \<Rightarrow> ('c \<Rightarrow> string \<Rightarrow> exn + string) \<Rightarrow> string \<Rightarrow> 'c account_row \<Rightarrow> 'c account" where
  "decryptRow encryptionEnabled decryptFn secret row =
     (case ar_encrypted_token row of
        Some enc \<Rightarrow>
          if encryptionEnabled
          then (case decryptFn enc secret of
                  Inr token \<Rightarrow>
                    \<lparr>acc_name = ar_name row, acc_token = Some token, acc_encryptedToken = None\<rparr>
                | Inl e \<Rightarrow>
                    \<lparr>acc_name = ar_name row, acc_token = ar_token row, acc_encryptedToken = None\<rparr>)
          else \<lparr>acc_name = ar_name row, acc_token = ar_token row, acc_encryptedToken = None\<rparr>
      | None \<Rightarrow>
          \<lparr>acc_name = ar_name row, acc_token = ar_token row, acc_encryptedToken = None\<rparr>)"

definition decryptAccount ::
  "('c \<Rightarrow> string \<Rightarrow> exn + string) \<Rightarrow> string \<Rightarrow> 'c account \<Rightarrow> 'c account" where
  "decryptAccount decryptFn secret account =
     (case acc_encryptedToken account of
        Some enc \<Rightarrow>
          (case decryptFn enc secret of
             Inr token \<Rightarrow> account\<lparr>acc_token := Some token, acc_encryptedToken := None\<rparr>
           | Inl e \<Rightarrow> account)
      | None \<Rightarrow> account)"

definition selectAccounts :: "nat option \<Rightarrow> 'c account_row list \<Rightarrow> 'c account_row list" where
  "selectAccounts uid rows =
     sort_key ar_id (if given uid then filter (\<lambda>r. ar_user_id r = uid) rows else rows)"

definition loadAccounts ::
  "('c, 'a) storage \<Rightarrow> db_faults \<Rightarrow> bool \<Rightarrow> ('c \<Rightarrow> string \<Rightarrow> exn + string) \<Rightarrow> string \<Rightarrow>
   nat option \<Rightarrow> 'c account list" where
  "loadAccounts st faults encryptionEnabled decryptFn secret uid =
     (if isDatabaseEnabled st then
        (if query_fails faults 0 then []
         else map (decryptRow encryptionEnabled decryptFn secret)
                (selectAccounts uid (accounts (server st))))
      else
        (case ACCOUNTS_FILE (files st) of
           Parsed accs \<Rightarrow>
             if encryptionEnabled then map (decryptAccount decryptFn secret) accs else accs
         | Missing \<Rightarrow> []
         | Unreadable \<Rightarrow> []
         | Corrupt \<Rightarrow> []))"

text \<open>
  A client checked out of the pool and the accounts table behind it: the table as
  the client sees it, with the changes of its open transaction block; the sequence of
  \<^verbatim>\<open>accounts.id\<close>, which no rollback rewinds; the number of statements sent; the table
  as it was when the open block began (\<open>None\<close> outside a block); and whether the open
  block is in the failed state.
\<close>

record 'c client =
  cl_accounts :: "'c account_row list"
  cl_seq :: nat
  cl_sent :: nat
  cl_begun :: "'c account_row list option"
  cl_failed :: bool

datatype 'c statement =
    BEGIN
  | DELETE_WHERE_USER nat
  | DELETE_WHERE_NULL
  | DELETE_ALL
  | INSERT "nat option" string "string option" "'c option"
  | COMMIT
  | ROLLBACK

text \<open>The foreign key of \<^verbatim>\<open>accounts.user_id\<close>: \<^verbatim>\<open>NULL\<close>, or the id of a row of \<^verbatim>\<open>users\<close>.\<close>

definition references :: "user list \<Rightarrow> nat option \<Rightarrow> bool" where
  "references us uid = (case uid of None \<Rightarrow> True | Some u \<Rightarrow> u \<in> usr_id ` set us)"

text \<open>
  The server raises an error for a statement. An \<^verbatim>\<open>INSERT\<close> it had begun to execute
  has taken its \<^verbatim>\<open>id\<close> from the sequence. Inside a block the block is in the failed
  state from then on; outside a block nothing else remains of the statement.
\<close>

definition server_rejects :: "'c statement \<Rightarrow> 'c client \<Rightarrow> 'c client" where
  "server_rejects stmt cl =
     cl\<lparr>cl_seq := (case stmt of
                     INSERT uid name token enc \<Rightarrow>
                       if cl_failed cl then cl_seq cl else cl_seq cl + 1
                   | _ \<Rightarrow> cl_seq cl),
        cl_failed := (cl_begun cl \<noteq> None)\<rparr>"

text \<open>The end of a block that commits nothing: the table is as it was at \<^verbatim>\<open>BEGIN\<close>.\<close>

definition rolled_back :: "'c client \<Rightarrow> 'c client" where
  "rolled_back cl =
     cl\<lparr>cl_accounts := (case cl_begun cl of None \<Rightarrow> cl_accounts cl | Some old \<Rightarrow> old),
        cl_begun := None, cl_failed := False\<rparr>"

text \<open>
  \<^verbatim>\<open>client.query\<close> for the statements of \<^verbatim>\<open>saveAccounts\<close>: \<open>False\<close> when the
  promise rejects. A statement that the driver rejects changes nothing on the server.
  In a failed block the server refuses every statement but \<^verbatim>\<open>COMMIT\<close> and
  \<^verbatim>\<open>ROLLBACK\<close>, which both end the block and commit nothing. Outside a block each
  statement is committed on its own; \<^verbatim>\<open>BEGIN\<close> opens a block, in which the changes
  stay the client's own until \<^verbatim>\<open>COMMIT\<close>. An insert whose \<^verbatim>\<open>user_id\<close> breaks the
  foreign key is rejected by the server.
\<close>

definition client_query ::
  "db_faults \<Rightarrow> user list \<Rightarrow> 'c statement \<Rightarrow> 'c client \<Rightarrow> bool \<times> 'c client" where
  "client_query faults us stmt cl =
     (let cl' = cl\<lparr>cl_sent := cl_sent cl + 1\<rparr>
      in if query_fails faults (cl_sent cl)
         then (False, if by_driver faults (cl_sent cl) then cl' else server_rejects stmt cl')
         else if cl_failed cl
         then (case stmt of
                 COMMIT \<Rightarrow> (True, rolled_back cl')
               | ROLLBACK \<Rightarrow> (True, rolled_back cl')
               | _ \<Rightarrow> (False, cl'))
         else (case stmt of
                 BEGIN \<Rightarrow>
                   (True, case cl_begun cl of
                            None \<Rightarrow> cl'\<lparr>cl_begun := Some (cl_accounts cl)\<rparr>
                          | Some old \<Rightarrow> cl')
               | DELETE_WHERE_USER u \<Rightarrow>
                   (True, cl'\<lparr>cl_accounts :=
                      filter (\<lambda>r. ar_user_id r \<noteq> Some u) (cl_accounts cl)\<rparr>)
               | DELETE_WHERE_NULL \<Rightarrow>
                   (True, cl'\<lparr>cl_accounts :=
                      filter (\<lambda>r. ar_user_id r \<noteq> None) (cl_accounts cl)\<rparr>)
               | DELETE_ALL \<Rightarrow> (True, cl'\<lparr>cl_accounts := []\<rparr>)
               | INSERT uid name token enc \<Rightarrow>
                   if references us uid
                   then (True, cl'\<lparr>cl_accounts := cl_accounts cl @
                           [\<lparr>ar_id = cl_seq cl, ar_user_id = uid, ar_name = name,
                             ar_token = token, ar_encrypted_token = enc\<rparr>],
                           cl_seq := cl_seq cl + 1\<rparr>)
                   else (False, server_rejects stmt cl')
               | COMMIT \<Rightarrow> (True, cl'\<lparr>cl_begun := None\<rparr>)
               | ROLLBACK \<Rightarrow> (True, rolled_back cl')))"

text \<open>
  The client as \<^verbatim>\<open>pool.connect()\<close> hands it out, and what the other connections find
  in the table once \<^verbatim>\<open>client.release()\<close> has run: the changes of a block that is
  still open are not among it.
\<close>

definition connect :: "('c, 'a) storage \<Rightarrow> 'c client" where
  "connect st =
     \<lparr>cl_accounts = accounts (server st), cl_seq = accounts_id_seq (server st),
      cl_sent = 0, cl_begun = None, cl_failed = False\<rparr>"

definition committed :: "'c client \<Rightarrow> 'c account_row list" where
  "committed cl = (case cl_begun cl of None \<Rightarrow> cl_accounts cl | Some old \<Rightarrow> old)"

definition release :: "('c, 'a) storage \<Rightarrow> 'c client \<Rightarrow> ('c, 'a) storage" where
  "release st cl =
     st\<lparr>server := (server st)\<lparr>accounts := committed cl, accounts_id_seq := cl_seq cl\<rparr>\<rparr>"

text \<open>
  The body of the \<^verbatim>\<open>for\<close> loop of \<^verbatim>\<open>saveAccounts\<close> for one account. The inner
  \<^verbatim>\<open>try\<close> covers both \<^verbatim>\<open>encryptFn\<close> and the insert of the ciphertext; its handler
  inserts the clear token, also when it was the insert that failed.
\<close>

definition insertAccount ::
  "db_faults \<Rightarrow> user list \<Rightarrow> bool \<Rightarrow> (string \<Rightarrow> string \<Rightarrow> exn + 'c) \<Rightarrow> string \<Rightarrow>
   nat option \<Rightarrow> 'c account \<Rightarrow> 'c client \<Rightarrow> bool \<times> 'c client" where
  "insertAccount faults us encryptionEnabled encryptFn secret uid account cl =
     (if encryptionEnabled \<and> truthy (acc_token account) then
        (case encryptFn (the (acc_token account)) secret of
           Inr encryptedToken \<Rightarrow>
             (case client_query faults us
                     (INSERT uid (acc_name account) None (Some encryptedToken)) cl of
                (True, cl') \<Rightarrow> (True, cl')
              | (False, cl') \<Rightarrow>
                  client_query faults us
                    (INSERT uid (acc_name account) (acc_token account) None) cl')
         | Inl e \<Rightarrow>
             client_query faults us
               (INSERT uid (acc_name account) (acc_token account) None) cl)
      else client_query faults us
             (INSERT uid (acc_name account) (acc_token account) None) cl)"

text \<open>The loop: a rejected insert outside the inner handler leaves the loop.\<close>

fun insertAccounts ::
  "db_faults \<Rightarrow> user list \<Rightarrow> bool \<Rightarrow> (string \<Rightarrow> string \<Rightarrow> exn + 'c) \<Rightarrow> string \<Rightarrow>
   nat option \<Rightarrow> 'c account list \<Rightarrow> 'c client \<Rightarrow> bool \<times> 'c client" where
  "insertAccounts faults us encryptionEnabled encryptFn secret uid [] cl = (True, cl)"
| "insertAccounts faults us encryptionEnabled encryptFn secret uid (account # rest) cl =
     (case insertAccount faults us encryptionEnabled encryptFn secret uid account cl of
        (True, cl') \<Rightarrow> insertAccounts faults us encryptionEnabled encryptFn secret uid rest cl'
      | (False, cl') \<Rightarrow> (False, cl'))"

text \<open>The statement that clears the accounts of the scope: \<^verbatim>\<open>if (userId) ... else ...\<close>.\<close>

definition deleteStatement :: "nat option \<Rightarrow> 'c statement" where
  "deleteStatement uid = (if given uid then DELETE_WHERE_USER (the uid) else DELETE_WHERE_NULL)"

text \<open>The \<^verbatim>\<open>try\<close> block of the database branch: \<open>True\<close> when it reaches \<^verbatim>\<open>return true\<close>.\<close>

definition saveTransaction ::
  "db_faults \<Rightarrow> user list \<Rightarrow> bool \<Rightarrow> (string \<Rightarrow> string \<Rightarrow> exn + 'c) \<Rightarrow> string \<Rightarrow>
   nat option \<Rightarrow> 'c account list \<Rightarrow> 'c client \<Rightarrow> bool \<times> 'c client" where
  "saveTransaction faults us encryptionEnabled encryptFn secret uid accs cl =
     (case client_query faults us BEGIN cl of
        (False, cl1) \<Rightarrow> (False, cl1)
      | (True, cl1) \<Rightarrow>
          (case client_query faults us (deleteStatement uid) cl1 of
             (False, cl2) \<Rightarrow> (False, cl2)
           | (True, cl2) \<Rightarrow>
               (case insertAccounts faults us encryptionEnabled encryptFn secret uid accs cl2 of
                  (False, cl3) \<Rightarrow> (False, cl3)
                | (True, cl3) \<Rightarrow> client_query faults us COMMIT cl3)))"

definition encryptAccount ::
  "(string \<Rightarrow> string \<Rightarrow> exn + 'c) \<Rightarrow> string \<Rightarrow> 'c account \<Rightarrow> 'c account" where
  "encryptAccount encryptFn secret account =
     (if truthy (acc_token account) then
        (case encryptFn (the (acc_token account)) secret of
           Inr encryptedToken \<Rightarrow>
             account\<lparr>acc_token := None, acc_encryptedToken := Some encryptedToken\<rparr>
         | Inl e \<Rightarrow> account)
      else account)"

text \<open>
  \<^verbatim>\<open>saveAccounts(accounts, encryptionEnabled, encryptFn, secret, userId = null)\<close>.
  The result is \<open>Inr\<close> of the returned boolean, or \<open>Inl\<close> of the exception the call
  ends with: \<^verbatim>\<open>pool.connect()\<close> stands before the \<^verbatim>\<open>try\<close>, and the handler sends
  \<^verbatim>\<open>ROLLBACK\<close> with \<^verbatim>\<open>await\<close> before its \<^verbatim>\<open>return false\<close>, outside any \<^verbatim>\<open>try\<close>
  of its own. The \<^verbatim>\<open>finally\<close> releases the client on every path.
\<close>

definition saveAccounts ::
  "('c, 'a) storage \<Rightarrow> db_faults \<Rightarrow> 'c account list \<Rightarrow> bool \<Rightarrow>
   (string \<Rightarrow> string \<Rightarrow> exn + 'c) \<Rightarrow> string \<Rightarrow> nat option \<Rightarrow>
   (exn + bool) \<times> ('c, 'a) storage" where
  "saveAccounts st faults accs encryptionEnabled encryptFn secret uid =
     (if isDatabaseEnabled st then
        (if connect_fails faults then (Inl DbError, st)
         else
           (case saveTransaction faults (users (server st)) encryptionEnabled encryptFn secret
                   uid accs (connect st) of
              (True, cl) \<Rightarrow> (Inr True, release st cl)
            | (False, cl) \<Rightarrow>
                (case client_query faults (users (server st)) ROLLBACK cl of
                   (True, cl') \<Rightarrow> (Inr False, release st cl')
                 | (False, cl') \<Rightarrow> (Inl DbError, release st cl'))))
      else
        (let accountsToSave =
               (if encryptionEnabled then map (encryptAccount encryptFn secret) accs else accs)
         in if writable (files st)
            then (Inr True, st\<lparr>files := (files st)\<lparr>ACCOUNTS_FILE := Parsed accountsToSave\<rparr>\<rparr>)
            else (Inr False, st)))"


text \<open>The rows that the \<^verbatim>\<open>DELETE\<close> of \<^verbatim>\<open>saveAccounts\<close> removes for a given \<^verbatim>\<open>userId\<close>.\<close>

definition deleted :: "nat option \<Rightarrow> 'c account_row \<Rightarrow> bool" where
  "deleted uid row = (if given uid then ar_user_id row = uid else ar_user_id row = None)"

text \<open>
  The rows that a committed \<^verbatim>\<open>saveAccounts\<close> has inserted, for the statements of the
  properties. The row of one account under the key \<open>k\<close> is \<open>insertedRow\<close> when no
  insert was rejected, and \<open>clearRow\<close> when the handler of the inner \<^verbatim>\<open>try\<close> has
  inserted it; \<open>storedRows\<close> holds of the lists of rows, under consecutive keys from
  \<open>k\<close>, that a commit can leave for a list of accounts.
\<close>

definition clearRow :: "nat option \<Rightarrow> nat \<Rightarrow> 'c account \<Rightarrow> 'c account_row" where
  "clearRow uid k account =
     \<lparr>ar_id = k, ar_user_id = uid, ar_name = acc_name account,
      ar_token = acc_token account, ar_encrypted_token = None\<rparr>"

definition insertedRow ::
  "bool \<Rightarrow> (string \<Rightarrow> string \<Rightarrow> exn + 'c) \<Rightarrow> string \<Rightarrow> nat option \<Rightarrow> nat \<Rightarrow> 'c account \<Rightarrow>
   'c account_row" where
  "insertedRow encryptionEnabled encryptFn secret uid k account =
     (if encryptionEnabled \<and> truthy (acc_token account) then
        (case encryptFn (the (acc_token account)) secret of
           Inr encryptedToken \<Rightarrow>
             \<lparr>ar_id = k, ar_user_id = uid, ar_name = acc_name account, ar_token = None,
              ar_encrypted_token = Some encryptedToken\<rparr>
         | Inl e \<Rightarrow>
             \<lparr>ar_id = k, ar_user_id = uid, ar_name = acc_name account,
              ar_token = acc_token account, ar_encrypted_token = None\<rparr>)
      else \<lparr>ar_id = k, ar_user_id = uid, ar_name = acc_name account,
            ar_token = acc_token account, ar_encrypted_token = None\<rparr>)"

fun storedRows ::
  "bool \<Rightarrow> (string \<Rightarrow> string \<Rightarrow> exn + 'c) \<Rightarrow> string \<Rightarrow> nat option \<Rightarrow> nat \<Rightarrow>
   'c account list \<Rightarrow> 'c account_row list \<Rightarrow> bool" where
  "storedRows encryptionEnabled encryptFn secret uid k [] rows = (rows = [])"
| "storedRows encryptionEnabled encryptFn secret uid k (account # rest) [] = False"
| "storedRows encryptionEnabled encryptFn secret uid k (account # rest) (row # rows) =
     ((row = insertedRow encryptionEnabled encryptFn secret uid k account
       \<or> row = clearRow uid k account)
      \<and> storedRows encryptionEnabled encryptFn secret uid (k + 1) rest rows)"

subsection \<open>Accounts, first revision of db.js\<close>

text \<open>
  The revision without users: the accounts table has no \<^verbatim>\<open>user_id\<close> column (its rows
  carry \<open>None\<close> there), \<^verbatim>\<open>loadAccounts\<close> selects every row and \<^verbatim>\<open>saveAccounts\<close>
  deletes every row before it inserts. The file branches are those of the later
  revision.
\<close>

definition loadAccounts_v1 ::
  "('c, 'a) storage \<Rightarrow> db_faults \<Rightarrow> bool \<Rightarrow> ('c \<Rightarrow> string \<Rightarrow> exn + string) \<Rightarrow> string \<Rightarrow>
   'c account list" where
  "loadAccounts_v1 st faults encryptionEnabled decryptFn secret =
     (if isDatabaseEnabled st then
        (if query_fails faults 0 then []
         else map (decryptRow encryptionEnabled decryptFn secret)
                (sort_key ar_id (accounts (server st))))
      else
        (case ACCOUNTS_FILE (files st) of
           Parsed accs \<Rightarrow>
             if encryptionEnabled then map (decryptAccount decryptFn secret) accs else accs
         | Missing \<Rightarrow> []
         | Unreadable \<Rightarrow> []
         | Corrupt \<Rightarrow> []))"

definition saveTransaction_v1 ::
  "db_faults \<Rightarrow> bool \<Rightarrow> (string \<Rightarrow> string \<Rightarrow> exn + 'c) \<Rightarrow> string \<Rightarrow>
   'c account list \<Rightarrow> 'c client \<Rightarrow> bool \<times> 'c client" where
  "saveTransaction_v1 faults encryptionEnabled encryptFn secret accs cl =
     (case client_query faults [] BEGIN cl of
        (False, cl1) \<Rightarrow> (False, cl1)
      | (True, cl1) \<Rightarrow>
          (case client_query faults [] DELETE_ALL cl1 of
             (False, cl2) \<Rightarrow> (False, cl2)
           | (True, cl2) \<Rightarrow>
               (case insertAccounts faults [] encryptionEnabled encryptFn secret None accs cl2 of
                  (False, cl3) \<Rightarrow> (False, cl3)
                | (True, cl3) \<Rightarrow> client_query faults [] COMMIT cl3)))"

definition saveAccounts_v1 ::
  "('c, 'a) storage \<Rightarrow> db_faults \<Rightarrow> 'c account list \<Rightarrow> bool \<Rightarrow>
   (string \<Rightarrow> string \<Rightarrow> exn + 'c) \<Rightarrow> string \<Rightarrow> (exn + bool) \<times> ('c, 'a) storage" where
  "saveAccounts_v1 st faults accs encryptionEnabled encryptFn secret =
     (if isDatabaseEnabled st then
        (if connect_fails faults then (Inl DbError, st)
         else
           (case saveTransaction_v1 faults encryptionEnabled encryptFn secret accs
                   (connect st) of
              (True, cl) \<Rightarrow> (Inr True, release st cl)
            | (False, cl) \<Rightarrow>
                (case client_query faults [] ROLLBACK cl of
                   (True, cl') \<Rightarrow> (Inr False, release st cl')
                 | (False, cl') \<Rightarrow> (Inl DbError, release st cl'))))
      else
        (let accountsToSave =
               (if encryptionEnabled then map (encryptAccount encryptFn secret) accs else accs)
         in if writable (files st)
            then (Inr True, st\<lparr>files := (files st)\<lparr>ACCOUNTS_FILE := Parsed accountsToSave\<rparr>\<rparr>)
            else (Inr False, st)))"

subsection \<open>Administrator password\<close>

text \<open>\<^verbatim>\<open>loadPassword()\<close>: \<^verbatim>\<open>result.rows[0]?.value || null\<close>, or the \<^verbatim>\<open>password\<close> key of the file.\<close>

definition loadPassword :: "('c, 'a) storage \<Rightarrow> db_faults \<Rightarrow> string option" where
  "loadPassword st faults =
     (if isDatabaseEnabled st then
        (if query_fails faults 0 then None
         else (case config (server st) ''admin_password'' of
                 None \<Rightarrow> None
               | Some v \<Rightarrow> if v = [] then None else Some v))
      else
        (case PASSWORD_FILE (files st) of
           Parsed p \<Rightarrow> p
         | Missing \<Rightarrow> None
         | Unreadable \<Rightarrow> None
         | Corrupt \<Rightarrow> None))"

definition savePassword ::
  "('c, 'a) storage \<Rightarrow> db_faults \<Rightarrow> string \<Rightarrow> bool \<times> ('c, 'a) storage" where
  "savePassword st faults password =
     (if isDatabaseEnabled st then
        (if query_fails faults 0 then (False, st)
         else (True, st\<lparr>server := (server st)\<lparr>config :=
                      (config (server st))(''admin_password'' \<mapsto> password)\<rparr>\<rparr>))
      else
        (if writable (files st)
         then (True, st\<lparr>files := (files st)\<lparr>PASSWORD_FILE := Parsed (Some password)\<rparr>\<rparr>)
         else (False, st)))"

subsection \<open>Users\<close>

definition ensureDataDir :: "('c, 'a) disk \<Rightarrow> exn + ('c, 'a) disk" where
  "ensureDataDir d =
     (if DATA_DIR d then Inr d
      else if writable d then Inr (d\<lparr>DATA_DIR := True\<rparr>)
      else Inl IoError)"

definition loadUsersFromFile :: "('c, 'a) disk \<Rightarrow> user list" where
  "loadUsersFromFile d =
     (case USERS_FILE d of
        Parsed us \<Rightarrow> us
      | Missing \<Rightarrow> []
      | Unreadable \<Rightarrow> []
      | Corrupt \<Rightarrow> [])"

text \<open>
  \<^verbatim>\<open>createUser(username, passwordHash, role = 'user')\<close>. The unique constraint on
  \<^verbatim>\<open>users.username\<close> answers with code 23505, which the handler turns into the
  error that the file branch throws after its scan.
\<close>

definition createUser ::
  "('c, 'a) storage \<Rightarrow> db_faults \<Rightarrow> int \<Rightarrow> string \<Rightarrow> string \<Rightarrow> string option \<Rightarrow>
   (exn + nat) \<times> ('c, 'a) storage" where
  "createUser st faults now username passwordHash role =
     (let r = (case role of None \<Rightarrow> ''user'' | Some x \<Rightarrow> x) in
      if isDatabaseEnabled st then
        (if query_fails faults 0
         then (Inl DbError,
               if by_driver faults 0 then st
               else st\<lparr>server := (server st)\<lparr>
                         users_id_seq := users_id_seq (server st) + 1\<rparr>\<rparr>)
         else if username \<in> usr_username ` set (users (server st))
         then (Inl UsernameExists,
               st\<lparr>server := (server st)\<lparr>users_id_seq := users_id_seq (server st) + 1\<rparr>\<rparr>)
         else (Inr (users_id_seq (server st)),
               st\<lparr>server := (server st)\<lparr>
                    users := users (server st) @
                      [\<lparr>usr_id = users_id_seq (server st), usr_username = username,
                        usr_passwordHash = passwordHash, usr_role = r, usr_createdAt = now\<rparr>],
                    users_id_seq := users_id_seq (server st) + 1\<rparr>\<rparr>))
      else
        (case ensureDataDir (files st) of
           Inl e \<Rightarrow> (Inl e, st)
         | Inr d \<Rightarrow>
             (let us = loadUsersFromFile d in
              if list_ex (\<lambda>u. usr_username u = username) us
              then (Inl UsernameExists, st\<lparr>files := d\<rparr>)
              else
                (let newId = length us + 1;
                     us' = us @ [\<lparr>usr_id = newId, usr_username = username,
                                  usr_passwordHash = passwordHash, usr_role = r,
                                  usr_createdAt = now\<rparr>]
                 in if writable d
                    then (Inr newId, st\<lparr>files := d\<lparr>USERS_FILE := Parsed us'\<rparr>\<rparr>)
                    else (Inl IoError, st\<lparr>files := d\<rparr>)))))"

text \<open>\<^verbatim>\<open>findIndex\<close> (\<open>None\<close> is -1) and \<^verbatim>\<open>splice(index, 1)\<close>.\<close>

fun findIndex :: "('x \<Rightarrow> bool) \<Rightarrow> 'x list \<Rightarrow> nat option" where
  "findIndex P [] = None"
| "findIndex P (x # xs) =
     (if P x then Some 0 else (case findIndex P xs of None \<Rightarrow> None | Some i \<Rightarrow> Some (i + 1)))"

definition splice1 :: "nat \<Rightarrow> 'x list \<Rightarrow> 'x list" where
  "splice1 i xs = take i xs @ drop (i + 1) xs"

text \<open>
  \<^verbatim>\<open>deleteUser(userId)\<close>. In the database the foreign keys of \<^verbatim>\<open>accounts.user_id\<close>
  and \<^verbatim>\<open>webhooks.user_id\<close> are declared \<^verbatim>\<open>ON DELETE CASCADE\<close>. The query stands
  outside any \<^verbatim>\<open>try\<close>. The file branch rewrites the users file only.
\<close>

definition deleteUser ::
  "('c, 'a) storage \<Rightarrow> db_faults \<Rightarrow> nat \<Rightarrow> (exn + bool) \<times> ('c, 'a) storage" where
  "deleteUser st faults uid =
     (if isDatabaseEnabled st then
        (if query_fails faults 0 then (Inl DbError, st)
         else (Inr (list_ex (\<lambda>u. usr_id u = uid) (users (server st))),
               st\<lparr>server := (server st)\<lparr>
                    users := filter (\<lambda>u. usr_id u \<noteq> uid) (users (server st)),
                    accounts := filter (\<lambda>r. ar_user_id r \<noteq> Some uid) (accounts (server st)),
                    webhooks := filter (\<lambda>w. wh_userId w \<noteq> Some uid)
                                  (webhooks (server st))\<rparr>\<rparr>))
      else
        (let us = loadUsersFromFile (files st) in
         case findIndex (\<lambda>u. usr_id u = uid) us of
           Some i \<Rightarrow>
             if writable (files st) \<and> DATA_DIR (files st)
             then (Inr True, st\<lparr>files := (files st)\<lparr>USERS_FILE := Parsed (splice1 i us)\<rparr>\<rparr>)
             else (Inl IoError, st)
         | None \<Rightarrow> (Inr False, st)))"


subsection \<open>Webhook registrations\<close>

text \<open>
  \<^verbatim>\<open>getWebhooks(userId = null)\<close>. The query stands outside any \<^verbatim>\<open>try\<close>; the file
  branch ignores \<^verbatim>\<open>userId\<close>.
\<close>

definition getWebhooks ::
  "('c, 'a) storage \<Rightarrow> db_faults \<Rightarrow> nat option \<Rightarrow> exn + webhook_config list" where
  "getWebhooks st faults uid =
     (if isDatabaseEnabled st then
        (if query_fails faults 0 then Inl DbError
         else Inr (if given uid then filter (\<lambda>w. wh_userId w = uid) (webhooks (server st))
                   else webhooks (server st)))
      else
        (case WEBHOOKS_FILE (files st) of
           Parsed ws \<Rightarrow> Inr ws
         | Missing \<Rightarrow> Inr []
         | Unreadable \<Rightarrow> Inr []
         | Corrupt \<Rightarrow> Inr []))"

text \<open>
  \<^verbatim>\<open>saveWebhook(webhook)\<close>: insert, or on a known id update of name, url, secret,
  events and enabled; the owner and the creation time of a stored row stay. A new
  row takes \<^verbatim>\<open>CURRENT_TIMESTAMP\<close>, and its owner must be a row of \<^verbatim>\<open>users\<close>. The
  server writes an updated row anew, so that the \<^verbatim>\<open>SELECT\<close> of \<^verbatim>\<open>getWebhooks\<close>, which
  has no \<^verbatim>\<open>ORDER BY\<close>, finds it after the rows that were not touched.
\<close>

definition saveWebhook ::
  "('c, 'a) storage \<Rightarrow> db_faults \<Rightarrow> int \<Rightarrow> webhook_config \<Rightarrow>
   (exn + bool) \<times> ('c, 'a) storage" where
  "saveWebhook st faults now webhook =
     (if isDatabaseEnabled st then
        (if query_fails faults 0 then (Inl DbError, st)
         else if list_ex (\<lambda>w. wh_id w = wh_id webhook) (webhooks (server st))
         then (Inr True,
               st\<lparr>server := (server st)\<lparr>webhooks :=
                    filter (\<lambda>w. wh_id w \<noteq> wh_id webhook) (webhooks (server st)) @
                    map (\<lambda>w. w\<lparr>wh_name := wh_name webhook, wh_url := wh_url webhook,
                                 wh_secret := wh_secret webhook,
                                 wh_events := wh_events webhook,
                                 wh_enabled := wh_enabled webhook\<rparr>)
                      (filter (\<lambda>w. wh_id w = wh_id webhook) (webhooks (server st)))\<rparr>\<rparr>)
         else if (case wh_userId webhook of
                    None \<Rightarrow> True
                  | Some u \<Rightarrow> u \<in> usr_id ` set (users (server st)))
         then (Inr True,
               st\<lparr>server := (server st)\<lparr>webhooks :=
                    webhooks (server st) @ [webhook\<lparr>wh_createdAt := now\<rparr>]\<rparr>\<rparr>)
         else (Inl DbError, st))
      else
        (case ensureDataDir (files st) of
           Inl e \<Rightarrow> (Inl e, st)
         | Inr d \<Rightarrow>
             (let ws = (case WEBHOOKS_FILE d of
                          Parsed l \<Rightarrow> l | Missing \<Rightarrow> [] | Unreadable \<Rightarrow> [] | Corrupt \<Rightarrow> []);
                  ws' = (case findIndex (\<lambda>w. wh_id w = wh_id webhook) ws of
                           Some i \<Rightarrow> ws[i := webhook]
                         | None \<Rightarrow> ws @ [webhook])
              in if writable d
                 then (Inr True, st\<lparr>files := d\<lparr>WEBHOOKS_FILE := Parsed ws'\<rparr>\<rparr>)
                 else (Inl IoError, st\<lparr>files := d\<rparr>))))"

definition deleteWebhook ::
  "('c, 'a) storage \<Rightarrow> db_faults \<Rightarrow> string \<Rightarrow> (exn + bool) \<times> ('c, 'a) storage" where
  "deleteWebhook st faults webhookId =
     (if isDatabaseEnabled st then
        (if query_fails faults 0 then (Inl DbError, st)
         else (Inr (list_ex (\<lambda>w. wh_id w = webhookId) (webhooks (server st))),
               st\<lparr>server := (server st)\<lparr>webhooks :=
                    filter (\<lambda>w. wh_id w \<noteq> webhookId) (webhooks (server st))\<rparr>\<rparr>))
      else
        (let ws = (case WEBHOOKS_FILE (files st) of
                     Parsed l \<Rightarrow> l | Missing \<Rightarrow> [] | Unreadable \<Rightarrow> [] | Corrupt \<Rightarrow> [])
         in case findIndex (\<lambda>w. wh_id w = webhookId) ws of
              Some i \<Rightarrow>
                if writable (files st) \<and> DATA_DIR (files st)
                then (Inr True,
                      st\<lparr>files := (files st)\<lparr>WEBHOOKS_FILE := Parsed (splice1 i ws)\<rparr>\<rparr>)
                else (Inl IoError, st)
            | None \<Rightarrow> (Inr False, st)))"

subsection \<open>Usage history\<close>

definition loadUsageHistoryFromFile :: "('c, 'a) disk \<Rightarrow> 'a usage list" where
  "loadUsageHistoryFromFile d =
     (case USAGE_HISTORY_FILE d of
        Parsed h \<Rightarrow> h
      | Missing \<Rightarrow> []
      | Unreadable \<Rightarrow> []
      | Corrupt \<Rightarrow> [])"

definition DAY :: int where
  "DAY = 24 * 60 * 60 * 1000"

text \<open>
  \<^verbatim>\<open>recordUsage(accountName, usageAmount)\<close>. The database stamps the row with
  \<^verbatim>\<open>CURRENT_TIMESTAMP\<close>, the file branch with \<^verbatim>\<open>new Date()\<close>; both are \<open>now\<close>.
  In the database the amount becomes the value of a \<^verbatim>\<open>DECIMAL(10, 4)\<close> column; the
  conversion is the parameter \<open>toDecimal\<close>: the number rounded to four places after
  the point, or \<open>None\<close> for a number that the column cannot hold, which the server
  rejects. The file branch keeps the records with
  \<^verbatim>\<open>recordedAt > Date.now() - 30 days\<close>, the new one among them.
\<close>

definition recordUsage ::
  "('a \<Rightarrow> string option) \<Rightarrow> ('c, 'a) storage \<Rightarrow> db_faults \<Rightarrow> int \<Rightarrow> string \<Rightarrow> 'a \<Rightarrow>
   (exn + bool) \<times> ('c, 'a) storage" where
  "recordUsage toDecimal st faults now accountName usageAmount =
     (if isDatabaseEnabled st then
        (if query_fails faults 0
         then (Inl DbError,
               if by_driver faults 0 then st
               else st\<lparr>server := (server st)\<lparr>
                         usage_history_id_seq := usage_history_id_seq (server st) + 1\<rparr>\<rparr>)
         else
           (case toDecimal usageAmount of
              None \<Rightarrow>
                (Inl DbError,
                 st\<lparr>server := (server st)\<lparr>
                      usage_history_id_seq := usage_history_id_seq (server st) + 1\<rparr>\<rparr>)
            | Some amount \<Rightarrow>
                (Inr True,
                 st\<lparr>server := (server st)\<lparr>
                      usage_history := usage_history (server st) @
                        [\<lparr>ug_id = usage_history_id_seq (server st),
                          ug_account_name = accountName, ug_usage_amount = amount,
                          ug_recorded_at = now\<rparr>],
                      usage_history_id_seq := usage_history_id_seq (server st) + 1\<rparr>\<rparr>)))
      else
        (case ensureDataDir (files st) of
           Inl e \<Rightarrow> (Inl e, st)
         | Inr d \<Rightarrow>
             (let history = loadUsageHistoryFromFile d @
                    [\<lparr>use_accountName = accountName, use_usageAmount = usageAmount,
                      use_recordedAt = now\<rparr>];
                  thirtyDaysAgo = now - 30 * DAY;
                  filtered = filter (\<lambda>h. use_recordedAt h > thirtyDaysAgo) history
              in if writable d
                 then (Inr True, st\<lparr>files := d\<lparr>USAGE_HISTORY_FILE := Parsed filtered\<rparr>\<rparr>)
                 else (Inl IoError, st\<lparr>files := d\<rparr>))))"

text \<open>
  \<^verbatim>\<open>new Date(t)\<close> for a time value \<open>t\<close> in milliseconds, \<open>None\<close> being \<^verbatim>\<open>NaN\<close>: a
  date, or \<^verbatim>\<open>Invalid Date\<close> (\<open>None\<close>) when \<open>t\<close> is \<^verbatim>\<open>NaN\<close> or more than
  8.64e15 ms away from the epoch.
\<close>

definition MAX_TIME :: int where
  "MAX_TIME = 8640000000000000"

definition newDate :: "int option \<Rightarrow> int option" where
  "newDate t =
     (case t of
        None \<Rightarrow> None
      | Some ms \<Rightarrow> if - MAX_TIME \<le> ms \<and> ms \<le> MAX_TIME then Some ms else None)"

text \<open>
  \<^verbatim>\<open>getUsageHistory(accountName = null, days = 30)\<close>; the arguments are passed
  explicitly, and \<open>days\<close> is \<open>None\<close> for the \<^verbatim>\<open>NaN\<close> that \<^verbatim>\<open>parseInt\<close> of the route
  can give. \<^verbatim>\<open>ORDER BY recorded_at\<close> and \<^verbatim>\<open>Array.prototype.sort\<close> are the stable
  \<open>sort_key\<close>. The database branch reads each amount with \<^verbatim>\<open>parseFloat\<close>, a parameter.
  When \<^verbatim>\<open>since\<close> is \<^verbatim>\<open>Invalid Date\<close>, the comparison of the file branch is false for
  every record, and the query of the database branch is rejected for its parameter.
\<close>

definition getUsageHistory ::
  "(string \<Rightarrow> 'a) \<Rightarrow> ('c, 'a) storage \<Rightarrow> db_faults \<Rightarrow> int \<Rightarrow> string option \<Rightarrow>
   int option \<Rightarrow> exn + 'a usage list" where
  "getUsageHistory parseFloat st faults now accountName days =
     (let since = newDate (map_option (\<lambda>d. now - d * DAY) days) in
      if isDatabaseEnabled st then
        (if query_fails faults 0 then Inl DbError
         else
           (case since of
              None \<Rightarrow> Inl DbError
            | Some t \<Rightarrow>
                Inr (map (\<lambda>row. \<lparr>use_accountName = ug_account_name row,
                                   use_usageAmount = parseFloat (ug_usage_amount row),
                                   use_recordedAt = ug_recorded_at row\<rparr>)
                       (sort_key ug_recorded_at
                          (filter (\<lambda>row. ug_recorded_at row > t \<and>
                                      (if truthy accountName
                                       then Some (ug_account_name row) = accountName
                                       else True))
                             (usage_history (server st)))))))
      else
        (case since of
           None \<Rightarrow> Inr []
         | Some t \<Rightarrow>
             Inr (sort_key use_recordedAt
                    (filter (\<lambda>h. use_recordedAt h > t \<and>
                                (if truthy accountName
                                 then Some (use_accountName h) = accountName
                                 else True))
                       (loadUsageHistoryFromFile (files st))))))"

section \<open>Handlers of server.js that read and write the administrator password\<close>

text \<open>\<^verbatim>\<open>saveAdminPassword(password)\<close>: hash, then \<^verbatim>\<open>db.savePassword\<close>.\<close>

definition saveAdminPassword ::
  "(string \<Rightarrow> nat \<Rightarrow> string) \<Rightarrow> ('c, 'a) storage \<Rightarrow> db_faults \<Rightarrow> string \<Rightarrow>
   bool \<times> ('c, 'a) storage" where
  "saveAdminPassword hash st faults password =
     savePassword st faults (hashPassword hash password)"

datatype login_response = LoginOk string | LoginBadRequest | LoginUnauthorized

text \<open>
  \<^verbatim>\<open>POST /api/verify-password\<close>, after its validators. \<open>faults\<close> holds for every
  request of the handler to the database. The result of \<^verbatim>\<open>saveAdminPassword\<close> is not
  read. On a wrong password the handler also starts \<^verbatim>\<open>sendWebhook\<close> and drops its
  promise; that call changes no state and is left out.
\<close>

definition verifyPasswordHandler ::
  "(string \<Rightarrow> string \<Rightarrow> bool) \<Rightarrow> (string \<Rightarrow> nat \<Rightarrow> string) \<Rightarrow> db_faults \<Rightarrow> 8 word list \<Rightarrow>
   int \<Rightarrow> ('c, 'a) storage \<times> session_store \<Rightarrow> string \<Rightarrow>
   login_response \<times> ('c, 'a) storage \<times> session_store" where
  "verifyPasswordHandler compare hash faults bytes now state password =
     (case state of (st, sessions) \<Rightarrow>
        (case loadPassword st faults of
           None \<Rightarrow> (LoginBadRequest, st, sessions)
         | Some savedPassword \<Rightarrow>
             if savedPassword = [] then (LoginBadRequest, st, sessions)
             else if verifyPassword compare password savedPassword then
               (let st' = (if \<not> isHashed (Some savedPassword)
                           then snd (saveAdminPassword hash st faults password)
                           else st);
                    (sessionToken, sessions') = createSession sessions bytes now None
                in (LoginOk sessionToken, st', sessions'))
             else (LoginUnauthorized, st, sessions)))"

datatype auth_response = Next "session option" | Status401

text \<open>
  The middleware \<^verbatim>\<open>requireAuth\<close>, given the headers \<^verbatim>\<open>x-admin-password\<close> and
  \<^verbatim>\<open>x-session-token\<close>. \<open>Next\<close> carries \<^verbatim>\<open>req.session\<close> when the middleware sets it.
\<close>

definition requireAuth ::
  "(string \<Rightarrow> string \<Rightarrow> bool) \<Rightarrow> db_faults \<Rightarrow> int \<Rightarrow> ('c, 'a) storage \<times> session_store \<Rightarrow>
   string option \<Rightarrow> string option \<Rightarrow> auth_response \<times> ('c, 'a) storage \<times> session_store" where
  "requireAuth compare faults now state password sessionToken =
     (case state of (st, sessions) \<Rightarrow>
        (case loadPassword st faults of
           None \<Rightarrow> (Next None, st, sessions)
         | Some savedPassword \<Rightarrow>
             if savedPassword = [] then (Next None, st, sessions)
             else
               (let (session, sessions') =
                      (if truthy sessionToken then validateSession sessions now sessionToken
                       else (None, sessions))
                in case session of
                     Some s \<Rightarrow> (Next (Some s), st, sessions')
                   | None \<Rightarrow>
                       if truthy password \<and> verifyPassword compare (the password) savedPassword
                       then (Next None, st, sessions')
                       else (Status401, st, sessions'))))"


section \<open>States after start-up\<close>

text \<open>
  The state in which \<^verbatim>\<open>initDatabase\<close> leaves a fresh installation: the data
  directory exists and no file does; on a database, \<^verbatim>\<open>createTables\<close> has created
  the empty tables, whose sequences start at 1. \<open>no_faults\<close> is a database that
  accepts every request.
\<close>

definition fresh_files :: "('c, 'a) disk" where
  "fresh_files =
     \<lparr>ACCOUNTS_FILE = Missing, PASSWORD_FILE = Missing, USERS_FILE = Missing,
      WEBHOOKS_FILE = Missing, USAGE_HISTORY_FILE = Missing, DATA_DIR = True,
      writable = True\<rparr>"

definition fresh_server :: "'c database" where
  "fresh_server =
     \<lparr>users = [], users_id_seq = 1, accounts = [], accounts_id_seq = 1, config = Map.empty,
      webhooks = [], usage_history = [], usage_history_id_seq = 1\<rparr>"

definition file_mode :: "('c, 'a) storage" where
  "file_mode = \<lparr>pool = False, isDbEnabled = False, server = fresh_server, files = fresh_files\<rparr>"

definition database_mode :: "('c, 'a) storage" where
  "database_mode = \<lparr>pool = True, isDbEnabled = True, server = fresh_server, files = fresh_files\<rparr>"

definition no_faults :: db_faults where
  "no_faults = \<lparr>connect_fails = False, query_fails = (\<lambda>k. False), by_driver = (\<lambda>k. False)\<rparr>"

definition no_sessions :: session_store where
  "no_sessions = \<lparr>redisClient = None, isRedisEnabled = False, memorySessions = Map.empty\<rparr>"

chapter \<open>Properties\<close>

section \<open>Sessions\<close>

lemma storedSession_destroySession:
  "storedSession (destroySession st t) now t = None"
  by (simp add: storedSession_def destroySession_def redis_get_def redis_del_def
      split: option.splits)

lemma storedSession_destroySession_other:
  "storedSession (destroySession st u) now t = None \<longleftrightarrow> u = t \<or> storedSession st now t = None"
  by (auto simp add: storedSession_def destroySession_def redis_get_def redis_del_def
      split: option.splits)

lemma storedSession_createSession_other:
  "generateSessionToken bytes \<noteq> t \<Longrightarrow>
   storedSession (snd (createSession st bytes now uid)) now' t = storedSession st now' t"
  by (simp add: storedSession_def createSession_def Let_def redis_get_def redis_setex_def
      split: option.splits)

lemma storedSession_validateSession:
  "storedSession st now' t = None \<Longrightarrow>
   storedSession (snd (validateSession st now tok)) now' t = None"
  by (auto simp add: validateSession_def storedSession_destroySession_other split: option.splits)

lemma storedSession_cleanExpiredSessions:
  "storedSession st now' t = None \<Longrightarrow>
   storedSession (cleanExpiredSessions st now) now' t = None"
  by (auto simp add: storedSession_def cleanExpiredSessions_def split: option.splits if_splits)

lemma storedSession_step:
  "\<not> creates t c \<Longrightarrow> storedSession st now' t = None \<Longrightarrow>
   storedSession (session_step st c) now' t = None"
proof (cases c)
  case (Pair now call)
  assume a: "\<not> creates t c" and b: "storedSession st now' t = None"
  show ?thesis
  proof (cases call)
    case (CreateSession bytes uid)
    with Pair a b show ?thesis by (simp add: storedSession_createSession_other)
  next
    case (ValidateSession tok)
    with Pair b show ?thesis by (simp add: storedSession_validateSession)
  next
    case (DestroySession u)
    with Pair b show ?thesis by (simp add: storedSession_destroySession_other)
  next
    case CleanExpiredSessions
    with Pair b show ?thesis by (simp add: storedSession_cleanExpiredSessions)
  qed
qed

lemma storedSession_run:
  "\<not> list_ex (creates t) calls \<Longrightarrow> storedSession st now' t = None \<Longrightarrow>
   storedSession (session_run st calls) now' t = None"
  unfolding session_run_def
  by (induction calls arbitrary: st) (simp_all add: storedSession_step)

lemma generateSessionToken_nonempty: "generateSessionToken bytes \<noteq> []"
  by (simp add: generateSessionToken_def)

lemma storedSession_createSession:
  "createSession st bytes now uid = (tok, st') \<Longrightarrow> now' \<le> now + SESSION_DURATION \<Longrightarrow>
   storedSession st' now' tok =
     Some \<lparr>userId = (case uid of None \<Rightarrow> ''admin'' | Some u \<Rightarrow> u), createdAt = now,
           expiresAt = now + SESSION_DURATION\<rparr>"
  by (auto simp add: storedSession_def createSession_def Let_def redis_get_def redis_setex_def
      SESSION_DURATION_def split: option.splits if_splits)

text \<open>
  Claim C2. \<^verbatim>\<open>validateSession\<close> returns \<^verbatim>\<open>null\<close> and leaves the store alone for an
  absent token, for the empty token and for a token the store does not hold. For a held
  session whose \<open>expiresAt\<close> lies before the clock it returns \<^verbatim>\<open>null\<close> and destroys the
  record, which the store then holds at no later time; otherwise it returns the
  session as stored. The token that \<^verbatim>\<open>createSession\<close> returns validates, to the session
  just created, at every time up to its expiry. After \<^verbatim>\<open>destroySession\<close> the token
  validates to \<^verbatim>\<open>null\<close> after any run of calls of the module in which no
  \<^verbatim>\<open>createSession\<close> draws the same token again.
\<close>

theorem validateSession_lifecycle:
  "validateSession st now None = (None, st)
   \<and> validateSession st now (Some []) = (None, st)
   \<and> (storedSession st now t = None \<longrightarrow> validateSession st now (Some t) = (None, st))
   \<and> (t \<noteq> [] \<and> storedSession st now t = Some s \<and> expiresAt s < now \<longrightarrow>
        validateSession st now (Some t) = (None, destroySession st t)
        \<and> (\<forall>later. storedSession (destroySession st t) later t = None))
   \<and> (t \<noteq> [] \<and> storedSession st now t = Some s \<and> now \<le> expiresAt s \<longrightarrow>
        validateSession st now (Some t) = (Some s, st))
   \<and> (createSession st bytes now uid = (tok, st') \<and> now' \<le> now + SESSION_DURATION \<longrightarrow>
        validateSession st' now' (Some tok) =
          (Some \<lparr>userId = (case uid of None \<Rightarrow> ''admin'' | Some u \<Rightarrow> u), createdAt = now,
                 expiresAt = now + SESSION_DURATION\<rparr>, st'))
   \<and> (\<not> list_ex (creates t) calls \<longrightarrow>
        validateSession (session_run (destroySession st t) calls) later (Some t) =
          (None, session_run (destroySession st t) calls))"
proof (intro conjI impI)
  show "validateSession st now None = (None, st)"
    by (simp add: validateSession_def)
  show "validateSession st now (Some []) = (None, st)"
    by (simp add: validateSession_def)
  show "validateSession st now (Some t) = (None, st)" if "storedSession st now t = None"
    using that by (simp add: validateSession_def)
  show "validateSession st now (Some t) = (None, destroySession st t)"
    if "t \<noteq> [] \<and> storedSession st now t = Some s \<and> expiresAt s < now"
    using that by (simp add: validateSession_def)
  show "\<forall>later. storedSession (destroySession st t) later t = None"
    by (simp add: storedSession_destroySession)
  show "validateSession st now (Some t) = (Some s, st)"
    if "t \<noteq> [] \<and> storedSession st now t = Some s \<and> now \<le> expiresAt s"
    using that by (simp add: validateSession_def)
  show "validateSession st' now' (Some tok) =
          (Some \<lparr>userId = (case uid of None \<Rightarrow> ''admin'' | Some u \<Rightarrow> u), createdAt = now,
                 expiresAt = now + SESSION_DURATION\<rparr>, st')"
    if h: "createSession st bytes now uid = (tok, st') \<and> now' \<le> now + SESSION_DURATION"
  proof -
    from h have tok: "tok = generateSessionToken bytes"
      by (auto simp add: createSession_def Let_def split: option.splits if_splits)
    from h have c: "createSession st bytes now uid = (tok, st')"
      and l: "now' \<le> now + SESSION_DURATION" by simp_all
    have "storedSession st' now' tok =
        Some \<lparr>userId = (case uid of None \<Rightarrow> ''admin'' | Some u \<Rightarrow> u), createdAt = now,
              expiresAt = now + SESSION_DURATION\<rparr>"
      by (rule storedSession_createSession [OF c l])
    with h tok show ?thesis
      by (simp add: validateSession_def generateSessionToken_nonempty)
  qed
  show "validateSession (session_run (destroySession st t) calls) later (Some t) =
          (None, session_run (destroySession st t) calls)"
    if "\<not> list_ex (creates t) calls"
    using that
    by (simp add: validateSession_def storedSession_run storedSession_destroySession)
qed


theorem validateSession_lifecycle_witness:
  "validateSession
     (snd (createSession \<lparr>redisClient = None, isRedisEnabled = False, memorySessions = Map.empty\<rparr>
             [0x2a] 1000 None))
     2000 (Some ''session_2a'')
   = (Some \<lparr>userId = ''admin'', createdAt = 1000, expiresAt = 864001000\<rparr>,
      snd (createSession \<lparr>redisClient = None, isRedisEnabled = False, memorySessions = Map.empty\<rparr>
             [0x2a] 1000 None))
   \<and> fst (validateSession
         \<lparr>redisClient = None, isRedisEnabled = False,
          memorySessions = [''session_2a'' \<mapsto>
             \<lparr>userId = ''admin'', createdAt = 1000, expiresAt = 864001000\<rparr>]\<rparr>
         864001001 (Some ''session_2a'')) = None
   \<and> fst (validateSession
         (session_run
            (destroySession
               \<lparr>redisClient = None, isRedisEnabled = False,
                memorySessions = [''session_2a'' \<mapsto>
                  \<lparr>userId = ''admin'', createdAt = 1000, expiresAt = 864001000\<rparr>]\<rparr>
               ''session_2a'')
            [(3000, ValidateSession (Some ''session_2a'')),
             (4000, CreateSession [0x2b] None),
             (5000, CleanExpiredSessions)])
         6000 (Some ''session_2a'')) = None"
proof (intro conjI)
  let ?st0 = "\<lparr>redisClient = None, isRedisEnabled = False, memorySessions = Map.empty\<rparr>"
  let ?s = "\<lparr>userId = ''admin'', createdAt = 1000, expiresAt = 864001000\<rparr>"
  let ?st1 = "\<lparr>redisClient = None, isRedisEnabled = False,
               memorySessions = [''session_2a'' \<mapsto> ?s]\<rparr>"
  have tok: "generateSessionToken [0x2a] = ''session_2a''"
    by (simp add: generateSessionToken_def toHex_def hexdigit_def)
  have c: "createSession ?st0 [0x2a] 1000 None = (''session_2a'', snd (createSession ?st0 [0x2a] 1000 None))"
    by (simp add: createSession_def Let_def tok)
  show "validateSession (snd (createSession ?st0 [0x2a] 1000 None)) 2000 (Some ''session_2a'')
        = (Some ?s, snd (createSession ?st0 [0x2a] 1000 None))"
    using validateSession_lifecycle [of ?st0 1000 "[]" ?s "[0x2a]" None "''session_2a''"
        "snd (createSession ?st0 [0x2a] 1000 None)" 2000 "[]" 0] c
    by (simp add: SESSION_DURATION_def)
  have "validateSession ?st1 864001001 (Some ''session_2a'') = (None, destroySession ?st1 ''session_2a'')"
    using validateSession_lifecycle [of ?st1 864001001 "''session_2a''" ?s "[]" None "[]" ?st1 0 "[]" 0]
    by (simp add: storedSession_def)
  then show "fst (validateSession ?st1 864001001 (Some ''session_2a'')) = None"
    by simp
  have tok': "generateSessionToken [0x2b] \<noteq> ''session_2a''"
    by (simp add: generateSessionToken_def toHex_def hexdigit_def)
  show "fst (validateSession
         (session_run (destroySession ?st1 ''session_2a'')
            [(3000, ValidateSession (Some ''session_2a'')),
             (4000, CreateSession [0x2b] None),
             (5000, CleanExpiredSessions)])
         6000 (Some ''session_2a'')) = None"
    using validateSession_lifecycle [of ?st1 0 "''session_2a''" ?s "[]" None "[]" ?st1 0
        "[(3000, ValidateSession (Some ''session_2a'')),
          (4000, CreateSession [0x2b] None),
          (5000, CleanExpiredSessions)]" 6000] tok'
    by simp
qed



section \<open>Notifications\<close>

lemma rejected_iff: "rejected r \<longleftrightarrow> \<not> fulfilled r"
  by (cases r) simp_all

lemma subscribed_iff:
  "subscribed event c \<longleftrightarrow>
     wh_events c = None \<or> (\<exists>events. wh_events c = Some events \<and> event \<in> set events)"
  by (simp add: subscribed_def split: option.splits)

lemma fulfilled_sendToWebhook:
  "fulfilled (sendToWebhook sig endpoint c payload) \<longleftrightarrow>
     (\<exists>status body.
        client_request endpoint (webhookRequest sig c payload) = Response status body \<and>
        200 \<le> status \<and> status < 300)"
  by (auto simp add: sendToWebhook_def split: http_outcome.splits)

lemma map_fst_deliveries:
  "map fst (deliveries sig endpoint configs event payload) = filter (subscribed event) configs"
  by (simp add: deliveries_def comp_def)

lemma sendWebhook_counts:
  "sendWebhook stringify sig endpoint configs now event data =
     \<lparr>success = length (filter (\<lambda>c. subscribed event c \<and>
                   fulfilled (sendToWebhook sig endpoint c (stringify event now data))) configs),
      failed = length (filter (\<lambda>c. subscribed event c \<and>
                   rejected (sendToWebhook sig endpoint c (stringify event now data))) configs)\<rparr>"
  by (simp add: sendWebhook_def deliveries_def Let_def filter_map comp_def conj_commute)

lemma sendWebhook_total:
  "success (sendWebhook stringify sig endpoint configs now event data)
   + failed (sendWebhook stringify sig endpoint configs now event data)
   = length (filter (subscribed event) configs)"
  unfolding sendWebhook_counts
  by (induction configs) (simp_all add: rejected_iff)

text \<open>
  The header \<^verbatim>\<open>X-Webhook-Event\<close> of every request is \<^verbatim>\<open>undefined\<close>
  (\<^verbatim>\<open>payload.event\<close> of a string), so the runtime's client throws for every request
  and every delivery is rejected before anything is sent, whatever the endpoint would
  answer: \<^verbatim>\<open>sendWebhook\<close> counts no success.
\<close>

lemma webhookRequest_undefined_header:
  "list_ex (\<lambda>header. snd header = HUndefined) (rq_headers (webhookRequest sig c payload))"
  by (simp add: webhookRequest_def Let_def split: option.splits)

lemma sendToWebhook_throws:
  "sendToWebhook sig endpoint c payload = Rejected (Thrown ''ERR_HTTP_INVALID_HEADER_VALUE'')"
  by (simp only: sendToWebhook_def client_request_def webhookRequest_undefined_header
        if_True http_outcome.case)

lemma sendWebhook_no_success:
  "sendWebhook stringify sig endpoint configs now event data =
     \<lparr>success = 0, failed = length (filter (subscribed event) configs)\<rparr>"
  by (simp add: sendWebhook_counts sendToWebhook_throws)

text \<open>
  Claim C1, as the code has it. \<^verbatim>\<open>sendWebhook\<close> starts a delivery for exactly the
  registrations whose \<open>events\<close> is absent or contains the event type, in registration
  order; a registration whose \<open>events\<close> is the empty list receives nothing. The
  counts it returns are those of the fulfilled and of the rejected deliveries among
  these, and they add up to the number of deliveries. With A restricted to
  \<^verbatim>\<open>service_down\<close> and B without a list, \<^verbatim>\<open>login_failed\<close> goes to B only, and the two
  counts add up to 1.
\<close>

theorem sendWebhook_fan_out:
  "map fst (deliveries sig endpoint configs event payload) = filter (subscribed event) configs
   \<and> (subscribed event c \<longleftrightarrow>
        wh_events c = None \<or> (\<exists>events. wh_events c = Some events \<and> event \<in> set events))
   \<and> (wh_events c = Some [] \<longrightarrow> \<not> subscribed event c)
   \<and> sendWebhook stringify sig endpoint configs now event data =
        \<lparr>success = length (filter (\<lambda>c. subscribed event c \<and>
                     fulfilled (sendToWebhook sig endpoint c (stringify event now data))) configs),
         failed = length (filter (\<lambda>c. subscribed event c \<and>
                     rejected (sendToWebhook sig endpoint c (stringify event now data))) configs)\<rparr>
   \<and> success (sendWebhook stringify sig endpoint configs now event data)
       + failed (sendWebhook stringify sig endpoint configs now event data)
       = length (filter (subscribed event) configs)
   \<and> (wh_events a = Some [''service_down''] \<and> wh_events b = None \<longrightarrow>
         map fst (deliveries sig endpoint [a, b] ''login_failed''
                    (stringify ''login_failed'' now data)) = [b]
         \<and> success (sendWebhook stringify sig endpoint [a, b] now ''login_failed'' data)
             + failed (sendWebhook stringify sig endpoint [a, b] now ''login_failed'' data)
             = 1)"
proof (intro conjI)
  show "map fst (deliveries sig endpoint configs event payload)
        = filter (subscribed event) configs"
    by (rule map_fst_deliveries)
  show "subscribed event c \<longleftrightarrow>
        wh_events c = None \<or> (\<exists>events. wh_events c = Some events \<and> event \<in> set events)"
    by (rule subscribed_iff)
  show "wh_events c = Some [] \<longrightarrow> \<not> subscribed event c"
    by (simp add: subscribed_def)
  show "sendWebhook stringify sig endpoint configs now event data =
        \<lparr>success = length (filter (\<lambda>c. subscribed event c \<and>
                     fulfilled (sendToWebhook sig endpoint c (stringify event now data))) configs),
         failed = length (filter (\<lambda>c. subscribed event c \<and>
                     rejected (sendToWebhook sig endpoint c (stringify event now data))) configs)\<rparr>"
    by (rule sendWebhook_counts)
  show "success (sendWebhook stringify sig endpoint configs now event data)
       + failed (sendWebhook stringify sig endpoint configs now event data)
       = length (filter (subscribed event) configs)"
    by (rule sendWebhook_total)
  show "wh_events a = Some [''service_down''] \<and> wh_events b = None \<longrightarrow>
         map fst (deliveries sig endpoint [a, b] ''login_failed''
                    (stringify ''login_failed'' now data)) = [b]
         \<and> success (sendWebhook stringify sig endpoint [a, b] now ''login_failed'' data)
             + failed (sendWebhook stringify sig endpoint [a, b] now ''login_failed'' data)
             = 1"
    by (simp add: sendWebhook_total map_fst_deliveries subscribed_def)
qed

theorem sendWebhook_fan_out_witness:
  "map fst (deliveries (\<lambda>payload secret. secret) (\<lambda>rq. Response 200 ''ok'')
     [\<lparr>wh_id = ''a'', wh_userId = None, wh_name = Some ''A'', wh_url = ''https://a.example/hook'',
       wh_secret = None, wh_events = Some [''service_down''], wh_enabled = True,
       wh_createdAt = 0\<rparr>,
      \<lparr>wh_id = ''b'', wh_userId = None, wh_name = Some ''B'', wh_url = ''https://b.example/hook'',
       wh_secret = None, wh_events = None, wh_enabled = True, wh_createdAt = 0\<rparr>]
     ''login_failed'' ''login_failed'')
   = [\<lparr>wh_id = ''b'', wh_userId = None, wh_name = Some ''B'', wh_url = ''https://b.example/hook'',
       wh_secret = None, wh_events = None, wh_enabled = True, wh_createdAt = 0\<rparr>]
   \<and> success (sendWebhook (\<lambda>event now data. event) (\<lambda>payload secret. secret)
       (\<lambda>rq. Response 200 ''ok'')
       [\<lparr>wh_id = ''a'', wh_userId = None, wh_name = Some ''A'',
         wh_url = ''https://a.example/hook'', wh_secret = None,
         wh_events = Some [''service_down''], wh_enabled = True, wh_createdAt = 0\<rparr>,
        \<lparr>wh_id = ''b'', wh_userId = None, wh_name = Some ''B'',
         wh_url = ''https://b.example/hook'', wh_secret = None, wh_events = None,
         wh_enabled = True, wh_createdAt = 0\<rparr>]
       1 ''login_failed'' ())
     + failed (sendWebhook (\<lambda>event now data. event) (\<lambda>payload secret. secret)
       (\<lambda>rq. Response 200 ''ok'')
       [\<lparr>wh_id = ''a'', wh_userId = None, wh_name = Some ''A'',
         wh_url = ''https://a.example/hook'', wh_secret = None,
         wh_events = Some [''service_down''], wh_enabled = True, wh_createdAt = 0\<rparr>,
        \<lparr>wh_id = ''b'', wh_userId = None, wh_name = Some ''B'',
         wh_url = ''https://b.example/hook'', wh_secret = None, wh_events = None,
         wh_enabled = True, wh_createdAt = 0\<rparr>]
       1 ''login_failed'' ())
     = 1
   \<and> \<not> subscribed ''login_failed''
       \<lparr>wh_id = ''c'', wh_userId = None, wh_name = Some ''C'', wh_url = ''https://c.example/hook'',
        wh_secret = None, wh_events = Some [], wh_enabled = True, wh_createdAt = 0\<rparr>"
  using sendWebhook_fan_out [of "\<lambda>payload secret. secret" "\<lambda>rq. Response 200 ''ok''" "[]"
      "''login_failed''" "''x''"
      "\<lparr>wh_id = ''c'', wh_userId = None, wh_name = Some ''C'', wh_url = ''https://c.example/hook'',
       wh_secret = None, wh_events = Some [], wh_enabled = True, wh_createdAt = 0\<rparr>"
      "\<lambda>event now data. event" 1 "()"
      "\<lparr>wh_id = ''a'', wh_userId = None, wh_name = Some ''A'', wh_url = ''https://a.example/hook'',
       wh_secret = None, wh_events = Some [''service_down''], wh_enabled = True,
       wh_createdAt = 0\<rparr>"
      "\<lparr>wh_id = ''b'', wh_userId = None, wh_name = Some ''B'', wh_url = ''https://b.example/hook'',
       wh_secret = None, wh_events = None, wh_enabled = True, wh_createdAt = 0\<rparr>"]
  by simp

text \<open>
  Claim C1 as stated fails for the empty list: with A restricted to \<^verbatim>\<open>service_down\<close>
  and B registered with \<^verbatim>\<open>events = []\<close>, behind an endpoint that answers 200,
  \<^verbatim>\<open>login_failed\<close> is delivered to nobody and the counts are 0 and 0.
\<close>

theorem sendWebhook_empty_events_counterexample:
  "sendWebhook (\<lambda>event now data. event) (\<lambda>payload secret. secret)
     (\<lambda>rq. Response 200 ''ok'')
     [\<lparr>wh_id = ''a'', wh_userId = None, wh_name = Some ''A'', wh_url = ''https://a.example/hook'',
       wh_secret = None, wh_events = Some [''service_down''], wh_enabled = True,
       wh_createdAt = 0\<rparr>,
      \<lparr>wh_id = ''b'', wh_userId = None, wh_name = Some ''B'', wh_url = ''https://b.example/hook'',
       wh_secret = None, wh_events = Some [], wh_enabled = True, wh_createdAt = 0\<rparr>]
     1 ''login_failed'' ()
   = \<lparr>success = 0, failed = 0\<rparr>
   \<and> deliveries (\<lambda>payload secret. secret) (\<lambda>rq. Response 200 ''ok'')
     [\<lparr>wh_id = ''a'', wh_userId = None, wh_name = Some ''A'', wh_url = ''https://a.example/hook'',
       wh_secret = None, wh_events = Some [''service_down''], wh_enabled = True,
       wh_createdAt = 0\<rparr>,
      \<lparr>wh_id = ''b'', wh_userId = None, wh_name = Some ''B'', wh_url = ''https://b.example/hook'',
       wh_secret = None, wh_events = Some [], wh_enabled = True, wh_createdAt = 0\<rparr>]
     ''login_failed'' ''login_failed'' = []"
  by (simp add: sendWebhook_def deliveries_def subscribed_def)

section \<open>Administrator password\<close>

lemma verifyPassword_plaintext:
  "\<not> startsWith stored ''$2'' \<Longrightarrow> verifyPassword compare password stored \<longleftrightarrow> password = stored"
  by (simp add: verifyPassword_def)

lemma isHashed_Some:
  "isHashed (Some p) \<longleftrightarrow> startsWith p ''$2''"
  by (auto simp add: isHashed_def startsWith_def)

lemma loadPassword_savePassword:
  "savePassword st faults p = (True, st') \<Longrightarrow> p \<noteq> [] \<Longrightarrow> loadPassword st' faults = Some p"
  by (auto simp add: savePassword_def loadPassword_def isDatabaseEnabled_def split: if_splits)

lemma requireAuth_storage:
  "requireAuth compare faults now (st, sessions) password sessionToken = (r, st', sessions')
   \<Longrightarrow> st' = st"
  by (auto simp add: requireAuth_def Let_def split: option.splits if_splits prod.splits)

text \<open>
  Claim C6, as the code has it. Against a stored value that does not start with
  \<^verbatim>\<open>$2\<close>, \<^verbatim>\<open>verifyPassword\<close> succeeds exactly when the password equals the stored
  value. The handler of \<^verbatim>\<open>POST /api/verify-password\<close>, on a successful verification
  against a stored plaintext, logs in and saves the hash of the password at once: when
  that write succeeds and the hash has the bcrypt format (it starts with \<^verbatim>\<open>$2\<close>, as the
  tests of \<^verbatim>\<open>hashPassword\<close> require), the stored value is the hash, satisfies
  \<^verbatim>\<open>isHashed\<close> and is not the plaintext. The middleware \<^verbatim>\<open>requireAuth\<close> never writes
  to the storage.
\<close>

theorem legacy_password_migration:
  "(\<not> startsWith stored ''$2'' \<longrightarrow>
      (verifyPassword compare password stored \<longleftrightarrow> password = stored))
   \<and> (loadPassword st faults = Some stored \<and> stored \<noteq> [] \<and> \<not> isHashed (Some stored) \<and>
       verifyPassword compare password stored \<and>
       isHashed (Some (hashPassword hash password)) \<and>
       fst (saveAdminPassword hash st faults password) \<and>
       verifyPasswordHandler compare hash faults bytes now (st, sessions) password
         = (r, st', sessions') \<longrightarrow>
         r = LoginOk (generateSessionToken bytes)
         \<and> st' = snd (saveAdminPassword hash st faults password)
         \<and> loadPassword st' faults = Some (hashPassword hash password)
         \<and> isHashed (loadPassword st' faults)
         \<and> loadPassword st' faults \<noteq> Some stored)
   \<and> (requireAuth compare faults now (st, sessions) header sessionToken = (a, st'', sessions'')
        \<longrightarrow> st'' = st)"
proof (intro conjI impI)
  show "verifyPassword compare password stored \<longleftrightarrow> password = stored"
    if "\<not> startsWith stored ''$2''"
    using that by (rule verifyPassword_plaintext)
  show "st'' = st"
    if "requireAuth compare faults now (st, sessions) header sessionToken = (a, st'', sessions'')"
    using that by (rule requireAuth_storage)
next
  assume h: "loadPassword st faults = Some stored \<and> stored \<noteq> [] \<and> \<not> isHashed (Some stored) \<and>
       verifyPassword compare password stored \<and>
       isHashed (Some (hashPassword hash password)) \<and>
       fst (saveAdminPassword hash st faults password) \<and>
       verifyPasswordHandler compare hash faults bytes now (st, sessions) password
         = (r, st', sessions')"
  from h have run: "verifyPasswordHandler compare hash faults bytes now (st, sessions) password
         = (r, st', sessions')" by simp
  from h have tok: "fst (createSession sessions bytes now None) = generateSessionToken bytes"
    by (simp add: createSession_def Let_def split: option.splits)
  from h run show "r = LoginOk (generateSessionToken bytes)"
    by (auto simp add: verifyPasswordHandler_def Let_def tok [symmetric] split: prod.splits)
  from h run show st': "st' = snd (saveAdminPassword hash st faults password)"
    by (auto simp add: verifyPasswordHandler_def Let_def split: prod.splits)
  from h have ne: "hashPassword hash password \<noteq> []"
    by (auto simp add: isHashed_def)
  from h have "savePassword st faults (hashPassword hash password) = (True, st')"
    unfolding st' by (simp add: saveAdminPassword_def prod_eq_iff)
  then show l: "loadPassword st' faults = Some (hashPassword hash password)"
    using ne by (rule loadPassword_savePassword)
  from h show "isHashed (loadPassword st' faults)"
    unfolding l by simp
  from h show "loadPassword st' faults \<noteq> Some stored"
    unfolding l by auto
qed


theorem legacy_password_migration_witness:
  "verifyPassword (\<lambda>p h. False) ''abc123'' ''abc123''
   \<and> fst (verifyPasswordHandler (\<lambda>p h. False) (\<lambda>p rounds. ''$2b$12$'' @ p) no_faults [0x2a] 1000
           ((file_mode :: (unit, unit) storage)
              \<lparr>files := fresh_files\<lparr>PASSWORD_FILE := Parsed (Some ''abc123'')\<rparr>\<rparr>, no_sessions)
           ''abc123'') = LoginOk ''session_2a''
   \<and> loadPassword
        (fst (snd (verifyPasswordHandler (\<lambda>p h. False) (\<lambda>p rounds. ''$2b$12$'' @ p) no_faults
           [0x2a] 1000
           ((file_mode :: (unit, unit) storage)
              \<lparr>files := fresh_files\<lparr>PASSWORD_FILE := Parsed (Some ''abc123'')\<rparr>\<rparr>, no_sessions)
           ''abc123''))) no_faults = Some ''$2b$12$abc123''
   \<and> isHashed (loadPassword
        (fst (snd (verifyPasswordHandler (\<lambda>p h. False) (\<lambda>p rounds. ''$2b$12$'' @ p) no_faults
           [0x2a] 1000
           ((file_mode :: (unit, unit) storage)
              \<lparr>files := fresh_files\<lparr>PASSWORD_FILE := Parsed (Some ''abc123'')\<rparr>\<rparr>, no_sessions)
           ''abc123''))) no_faults)"
proof -
  let ?compare = "\<lambda>(p :: string) (h :: string). False"
  let ?hash = "\<lambda>(p :: string) (rounds :: nat). ''$2b$12$'' @ p"
  let ?st = "(file_mode :: (unit, unit) storage)
              \<lparr>files := fresh_files\<lparr>PASSWORD_FILE := Parsed (Some ''abc123'')\<rparr>\<rparr>"
  let ?run = "verifyPasswordHandler ?compare ?hash no_faults [0x2a] 1000 (?st, no_sessions) ''abc123''"
  have tok: "generateSessionToken [0x2a] = ''session_2a''"
    by (simp add: generateSessionToken_def toHex_def hexdigit_def)
  have l: "loadPassword ?st no_faults = Some ''abc123''"
    by (simp add: loadPassword_def isDatabaseEnabled_def file_mode_def fresh_files_def)
  have p: "\<not> isHashed (Some ''abc123'')"
    by (simp add: isHashed_def startsWith_def)
  have v: "verifyPassword ?compare ''abc123'' ''abc123''"
    by (simp add: verifyPassword_def startsWith_def)
  have h: "isHashed (Some (hashPassword ?hash ''abc123''))"
    by (simp add: isHashed_def startsWith_def hashPassword_def)
  have w: "fst (saveAdminPassword ?hash ?st no_faults ''abc123'')"
    by (simp add: saveAdminPassword_def savePassword_def isDatabaseEnabled_def file_mode_def
        fresh_files_def)
  have hp: "hashPassword ?hash ''abc123'' = ''$2b$12$abc123''"
    by (simp add: hashPassword_def)
  have c: "?run = (fst ?run, fst (snd ?run), snd (snd ?run))"
    by simp
  have "fst ?run = LoginOk (generateSessionToken [0x2a])
        \<and> loadPassword (fst (snd ?run)) no_faults = Some (hashPassword ?hash ''abc123'')
        \<and> isHashed (loadPassword (fst (snd ?run)) no_faults)"
    using legacy_password_migration [of "''abc123''" ?compare "''abc123''" ?st no_faults ?hash
        "[0x2a]" 1000 no_sessions "fst ?run" "fst (snd ?run)" "snd (snd ?run)"
        None None "Next None" ?st no_sessions] l p v h w c
    by blast
  with v show ?thesis
    unfolding tok hp by blast
qed

text \<open>
  Claim C6 as stated fails for the verification in \<^verbatim>\<open>requireAuth\<close>: with the
  plaintext \<^verbatim>\<open>abc123\<close> stored, a request carrying that password in
  \<^verbatim>\<open>x-admin-password\<close> is verified and let through, and the stored value is still the
  plaintext.
\<close>

theorem requireAuth_no_migration_counterexample:
  "verifyPassword (\<lambda>p h. False) ''abc123'' ''abc123''
   \<and> \<not> isHashed (Some ''abc123'')
   \<and> loadPassword
        ((file_mode :: (unit, unit) storage)
           \<lparr>files := fresh_files\<lparr>PASSWORD_FILE := Parsed (Some ''abc123'')\<rparr>\<rparr>) no_faults
      = Some ''abc123''
   \<and> requireAuth (\<lambda>p h. False) no_faults 1000
        ((file_mode :: (unit, unit) storage)
           \<lparr>files := fresh_files\<lparr>PASSWORD_FILE := Parsed (Some ''abc123'')\<rparr>\<rparr>, no_sessions)
        (Some ''abc123'') None
      = (Next None,
         (file_mode :: (unit, unit) storage)
           \<lparr>files := fresh_files\<lparr>PASSWORD_FILE := Parsed (Some ''abc123'')\<rparr>\<rparr>, no_sessions)"
  by (simp add: requireAuth_def loadPassword_def isDatabaseEnabled_def file_mode_def
      fresh_files_def verifyPassword_def startsWith_def isHashed_def truthy_def)



section \<open>Users in the file backend\<close>

lemma loadUsersFromFile_ensureDataDir:
  "ensureDataDir d = Inr d' \<Longrightarrow> loadUsersFromFile d' = loadUsersFromFile d"
  by (auto simp add: ensureDataDir_def loadUsersFromFile_def split: if_splits)

lemma createUser_file:
  assumes "\<not> isDatabaseEnabled st" and "writable (files st)"
    and "\<not> list_ex (\<lambda>u. usr_username u = username) (loadUsersFromFile (files st))"
  shows "fst (createUser st faults now username passwordHash role)
           = Inr (length (loadUsersFromFile (files st)) + 1)"
    and "loadUsersFromFile (files (snd (createUser st faults now username passwordHash role)))
           = loadUsersFromFile (files st) @
               [\<lparr>usr_id = length (loadUsersFromFile (files st)) + 1, usr_username = username,
                 usr_passwordHash = passwordHash,
                 usr_role = (case role of None \<Rightarrow> ''user'' | Some x \<Rightarrow> x),
                 usr_createdAt = now\<rparr>]"
  using assms
  by (auto simp add: createUser_def Let_def ensureDataDir_def loadUsersFromFile_def
      split: json_file.splits)

text \<open>
  Claim C10. In the file backend \<^verbatim>\<open>createUser\<close>, when the name is free and the
  file can be written, returns the number of stored users plus one and appends a user
  with that id. Ids therefore repeat once a user has been deleted: on a fresh
  installation, creating \<^verbatim>\<open>alice\<close> and \<^verbatim>\<open>bob\<close>, deleting the user with id 1 and
  creating \<^verbatim>\<open>carol\<close> leaves \<^verbatim>\<open>bob\<close> and \<^verbatim>\<open>carol\<close> stored, both with id 2.
\<close>

theorem createUser_file_ids:
  "(\<not> isDatabaseEnabled st \<and> writable (files st) \<and>
    \<not> list_ex (\<lambda>u. usr_username u = username) (loadUsersFromFile (files st)) \<longrightarrow>
      fst (createUser st faults now username passwordHash role)
        = Inr (length (loadUsersFromFile (files st)) + 1)
      \<and> loadUsersFromFile (files (snd (createUser st faults now username passwordHash role)))
        = loadUsersFromFile (files st) @
            [\<lparr>usr_id = length (loadUsersFromFile (files st)) + 1, usr_username = username,
              usr_passwordHash = passwordHash,
              usr_role = (case role of None \<Rightarrow> ''user'' | Some x \<Rightarrow> x),
              usr_createdAt = now\<rparr>])
   \<and> (let s1 = snd (createUser (file_mode :: ('c, 'a) storage) no_faults 1 ''alice'' ''h1'' None);
           s2 = snd (createUser s1 no_faults 2 ''bob'' ''h2'' None);
           s3 = snd (deleteUser s2 no_faults 1);
           s4 = snd (createUser s3 no_faults 3 ''carol'' ''h3'' None)
       in fst (deleteUser s2 no_faults 1) = Inr True
          \<and> map (\<lambda>u. (usr_id u, usr_username u)) (loadUsersFromFile (files s4))
              = [(2, ''bob''), (2, ''carol'')])"
proof (intro conjI impI)
  assume h: "\<not> isDatabaseEnabled st \<and> writable (files st) \<and>
    \<not> list_ex (\<lambda>u. usr_username u = username) (loadUsersFromFile (files st))"
  then show "fst (createUser st faults now username passwordHash role)
        = Inr (length (loadUsersFromFile (files st)) + 1)"
    by (simp add: createUser_file)
  from h show "loadUsersFromFile (files (snd (createUser st faults now username passwordHash role)))
        = loadUsersFromFile (files st) @
            [\<lparr>usr_id = length (loadUsersFromFile (files st)) + 1, usr_username = username,
              usr_passwordHash = passwordHash,
              usr_role = (case role of None \<Rightarrow> ''user'' | Some x \<Rightarrow> x),
              usr_createdAt = now\<rparr>]"
    by (simp add: createUser_file)
next
  show "let s1 = snd (createUser (file_mode :: ('c, 'a) storage) no_faults 1 ''alice'' ''h1'' None);
           s2 = snd (createUser s1 no_faults 2 ''bob'' ''h2'' None);
           s3 = snd (deleteUser s2 no_faults 1);
           s4 = snd (createUser s3 no_faults 3 ''carol'' ''h3'' None)
       in fst (deleteUser s2 no_faults 1) = Inr True
          \<and> map (\<lambda>u. (usr_id u, usr_username u)) (loadUsersFromFile (files s4))
              = [(2, ''bob''), (2, ''carol'')]"
    by (simp add: createUser_def deleteUser_def Let_def ensureDataDir_def
      loadUsersFromFile_def isDatabaseEnabled_def file_mode_def fresh_files_def splice1_def)
qed

theorem createUser_file_ids_witness:
  "fst (createUser (file_mode :: (unit, unit) storage) no_faults 1 ''alice'' ''h1'' None) = Inr 1
   \<and> map usr_id (loadUsersFromFile (files (snd (createUser (file_mode :: (unit, unit) storage)
        no_faults 1 ''alice'' ''h1'' None)))) = [1]"
proof -
  let ?st = "file_mode :: (unit, unit) storage"
  have e: "loadUsersFromFile (files ?st) = []"
    by (simp add: file_mode_def fresh_files_def loadUsersFromFile_def)
  have h: "\<not> isDatabaseEnabled ?st \<and> writable (files ?st) \<and>
    \<not> list_ex (\<lambda>u. usr_username u = ''alice'') (loadUsersFromFile (files ?st))"
    unfolding e by (simp add: isDatabaseEnabled_def file_mode_def fresh_files_def)
  from createUser_file_ids [of ?st "''alice''" no_faults 1 "''h1''" None] h
  have "fst (createUser ?st no_faults 1 ''alice'' ''h1'' None)
          = Inr (length (loadUsersFromFile (files ?st)) + 1)
        \<and> loadUsersFromFile (files (snd (createUser ?st no_faults 1 ''alice'' ''h1'' None)))
          = loadUsersFromFile (files ?st) @
            [\<lparr>usr_id = length (loadUsersFromFile (files ?st)) + 1, usr_username = ''alice'',
              usr_passwordHash = ''h1'',
              usr_role = (case None of None \<Rightarrow> ''user'' | Some x \<Rightarrow> x),
              usr_createdAt = 1\<rparr>]"
    by blast
  then show ?thesis
    unfolding e by simp
qed



section \<open>Usage history\<close>

lemma loadUsageHistoryFromFile_ensureDataDir:
  "ensureDataDir d = Inr d' \<Longrightarrow> loadUsageHistoryFromFile d' = loadUsageHistoryFromFile d"
  by (auto simp add: ensureDataDir_def loadUsageHistoryFromFile_def split: if_splits)

lemma recordUsage_file:
  assumes "\<not> isDatabaseEnabled st" and "writable (files st)"
  shows "fst (recordUsage toDecimal st faults now acc amt) = Inr True"
    and "loadUsageHistoryFromFile (files (snd (recordUsage toDecimal st faults now acc amt)))
         = filter (\<lambda>h. now - 30 * DAY < use_recordedAt h)
             (loadUsageHistoryFromFile (files st) @
                [\<lparr>use_accountName = acc, use_usageAmount = amt, use_recordedAt = now\<rparr>])"
  using assms
  by (auto simp add: recordUsage_def Let_def ensureDataDir_def loadUsageHistoryFromFile_def)

lemma recordUsage_database:
  assumes "isDatabaseEnabled st" and "\<not> query_fails faults 0" and "toDecimal amt = Some d"
  shows "fst (recordUsage toDecimal st faults now acc amt) = Inr True"
    and "usage_history (server (snd (recordUsage toDecimal st faults now acc amt)))
         = usage_history (server st) @
             [\<lparr>ug_id = usage_history_id_seq (server st), ug_account_name = acc,
               ug_usage_amount = d, ug_recorded_at = now\<rparr>]"
    and "usage_history_id_seq (server (snd (recordUsage toDecimal st faults now acc amt)))
         = usage_history_id_seq (server st) + 1"
  using assms by (simp_all add: recordUsage_def)

lemma recordUsage_keeps_rows:
  "\<exists>added. usage_history (server (snd (recordUsage toDecimal st faults now acc amt)))
             = usage_history (server st) @ added"
  by (auto simp add: recordUsage_def Let_def split: sum.splits option.splits)

lemma newDate_Some:
  "- MAX_TIME \<le> t \<Longrightarrow> t \<le> MAX_TIME \<Longrightarrow> newDate (Some t) = Some t"
  by (simp add: newDate_def)

lemma getUsageHistory_file:
  assumes "\<not> isDatabaseEnabled st"
    and "- MAX_TIME \<le> now - days * DAY" and "now - days * DAY \<le> MAX_TIME"
  shows "\<exists>xs. getUsageHistory parseFloat st faults now name (Some days) = Inr xs
           \<and> xs = sort_key use_recordedAt
                    (filter (\<lambda>h. now - days * DAY < use_recordedAt h \<and>
                                (if truthy name then Some (use_accountName h) = name else True))
                       (loadUsageHistoryFromFile (files st)))
           \<and> set xs = {h \<in> set (loadUsageHistoryFromFile (files st)).
                         now - days * DAY < use_recordedAt h \<and>
                         (if truthy name then Some (use_accountName h) = name else True)}
           \<and> sorted (map use_recordedAt xs)"
  using assms by (auto simp add: getUsageHistory_def Let_def newDate_Some)

lemma getUsageHistory_file_subset:
  assumes "\<not> isDatabaseEnabled st"
    and "getUsageHistory parseFloat st faults now name days = Inr xs"
  shows "set xs \<subseteq> set (loadUsageHistoryFromFile (files st))"
  using assms by (auto simp add: getUsageHistory_def Let_def split: option.splits)

lemma getUsageHistory_database:
  assumes "isDatabaseEnabled st" and "\<not> query_fails faults 0"
    and "- MAX_TIME \<le> now - days * DAY" and "now - days * DAY \<le> MAX_TIME"
  shows "\<exists>xs. getUsageHistory parseFloat st faults now name (Some days) = Inr xs
           \<and> xs = map (\<lambda>row. \<lparr>use_accountName = ug_account_name row,
                                use_usageAmount = parseFloat (ug_usage_amount row),
                                use_recordedAt = ug_recorded_at row\<rparr>)
                    (sort_key ug_recorded_at
                       (filter (\<lambda>row. now - days * DAY < ug_recorded_at row \<and>
                                   (if truthy name then Some (ug_account_name row) = name
                                    else True))
                          (usage_history (server st))))
           \<and> set xs = (\<lambda>row. \<lparr>use_accountName = ug_account_name row,
                                use_usageAmount = parseFloat (ug_usage_amount row),
                                use_recordedAt = ug_recorded_at row\<rparr>) `
                       {row \<in> set (usage_history (server st)).
                         now - days * DAY < ug_recorded_at row \<and>
                         (if truthy name then Some (ug_account_name row) = name else True)}
           \<and> sorted (map use_recordedAt xs)"
  using assms by (auto simp add: getUsageHistory_def Let_def comp_def newDate_Some)

lemma getUsageHistory_database_recent:
  assumes "isDatabaseEnabled st"
    and "getUsageHistory parseFloat st faults now name (Some days) = Inr ys"
  shows "\<forall>y \<in> set ys. now - days * DAY < use_recordedAt y"
  using assms
  by (auto simp add: getUsageHistory_def Let_def newDate_def split: if_splits option.splits)

text \<open>
  Without a date to compare with, that is for \<^verbatim>\<open>days\<close> that is \<^verbatim>\<open>NaN\<close> or takes
  \<^verbatim>\<open>since\<close> out of the range of dates, the file branch answers the empty list and the
  database branch ends with the rejection of its query.
\<close>

lemma getUsageHistory_invalid_date:
  assumes "newDate (map_option (\<lambda>d. now - d * DAY) days) = None"
  shows "getUsageHistory parseFloat st faults now name days
         = (if isDatabaseEnabled st then Inl DbError else Inr [])"
  using assms by (simp add: getUsageHistory_def Let_def)

lemma usage_history_untouched:
  "usage_history (server (snd (saveAccounts st faults accs encryptionEnabled encryptFn secret uid)))
     = usage_history (server st)"
  "usage_history (server (snd (saveAccounts_v1 st faults accs encryptionEnabled encryptFn secret)))
     = usage_history (server st)"
  "usage_history (server (snd (savePassword st faults password))) = usage_history (server st)"
  "usage_history (server (snd (createUser st faults now username passwordHash role)))
     = usage_history (server st)"
  "usage_history (server (snd (deleteUser st faults u))) = usage_history (server st)"
  "usage_history (server (snd (saveWebhook st faults now webhook))) = usage_history (server st)"
  "usage_history (server (snd (deleteWebhook st faults webhookId))) = usage_history (server st)"
  by (auto simp add: saveAccounts_def saveAccounts_v1_def release_def savePassword_def
      createUser_def deleteUser_def saveWebhook_def deleteWebhook_def Let_def
      split: prod.splits bool.splits if_splits sum.splits option.splits)

text \<open>
  Claim C8. In the file backend a \<^verbatim>\<open>recordUsage\<close> that writes leaves in the file
  exactly the records that were younger than 30 days, in their order, and the new
  record after them: the new record and every younger record are kept, and a record
  made 31 days before is in no later read of the file and in no later answer of
  \<^verbatim>\<open>getUsageHistory\<close>. In the database \<^verbatim>\<open>recordUsage\<close> appends a row, whose amount is
  the decimal of the column, and removes none, whatever its age, and no other
  function of the module that writes changes the table; the answer of
  \<^verbatim>\<open>getUsageHistory\<close>, for a number of days that leaves \<^verbatim>\<open>since\<close> a date, is made of
  the rows younger than that (and of the given account), so that with 30 days a row
  made 31 days before is stored and not returned. In both backends the answer ascends
  by record time.
\<close>

theorem usage_retention_asymmetry:
  "(\<not> isDatabaseEnabled st \<and> writable (files st) \<longrightarrow>
      fst (recordUsage toDecimal st faults now acc amt) = Inr True
      \<and> loadUsageHistoryFromFile (files (snd (recordUsage toDecimal st faults now acc amt)))
          = filter (\<lambda>h. now - 30 * DAY < use_recordedAt h)
              (loadUsageHistoryFromFile (files st) @
                 [\<lparr>use_accountName = acc, use_usageAmount = amt, use_recordedAt = now\<rparr>])
      \<and> \<lparr>use_accountName = acc, use_usageAmount = amt, use_recordedAt = now\<rparr>
          \<in> set (loadUsageHistoryFromFile
                   (files (snd (recordUsage toDecimal st faults now acc amt))))
      \<and> (\<forall>h \<in> set (loadUsageHistoryFromFile (files st)).
            now - 30 * DAY < use_recordedAt h \<longrightarrow>
            h \<in> set (loadUsageHistoryFromFile
                       (files (snd (recordUsage toDecimal st faults now acc amt)))))
      \<and> (\<forall>h \<in> set (loadUsageHistoryFromFile
                       (files (snd (recordUsage toDecimal st faults now acc amt)))).
            now - 30 * DAY < use_recordedAt h)
      \<and> (\<forall>h. use_recordedAt h = now - 31 * DAY \<longrightarrow>
            h \<notin> set (loadUsageHistoryFromFile
                       (files (snd (recordUsage toDecimal st faults now acc amt)))))
      \<and> (\<forall>faults' later name days xs.
            getUsageHistory parseFloat (snd (recordUsage toDecimal st faults now acc amt))
              faults' later name days = Inr xs \<longrightarrow>
            (\<forall>h \<in> set xs. now - 30 * DAY < use_recordedAt h)))
   \<and> (isDatabaseEnabled st \<and> \<not> query_fails faults 0 \<and> toDecimal amt = Some d \<longrightarrow>
        fst (recordUsage toDecimal st faults now acc amt) = Inr True
        \<and> usage_history (server (snd (recordUsage toDecimal st faults now acc amt)))
            = usage_history (server st) @
                [\<lparr>ug_id = usage_history_id_seq (server st), ug_account_name = acc,
                  ug_usage_amount = d, ug_recorded_at = now\<rparr>]
        \<and> usage_history_id_seq (server (snd (recordUsage toDecimal st faults now acc amt)))
            = usage_history_id_seq (server st) + 1)
   \<and> (\<exists>added. usage_history (server (snd (recordUsage toDecimal st faults now acc amt)))
                 = usage_history (server st) @ added)
   \<and> (isDatabaseEnabled st \<and> \<not> query_fails faults 0 \<and>
       - MAX_TIME \<le> now - days * DAY \<and> now - days * DAY \<le> MAX_TIME \<longrightarrow>
        (\<exists>xs. getUsageHistory parseFloat st faults now name (Some days) = Inr xs
           \<and> xs = map (\<lambda>row. \<lparr>use_accountName = ug_account_name row,
                                use_usageAmount = parseFloat (ug_usage_amount row),
                                use_recordedAt = ug_recorded_at row\<rparr>)
                    (sort_key ug_recorded_at
                       (filter (\<lambda>row. now - days * DAY < ug_recorded_at row \<and>
                                   (if truthy name then Some (ug_account_name row) = name
                                    else True))
                          (usage_history (server st))))
           \<and> set xs = (\<lambda>row. \<lparr>use_accountName = ug_account_name row,
                                use_usageAmount = parseFloat (ug_usage_amount row),
                                use_recordedAt = ug_recorded_at row\<rparr>) `
                       {row \<in> set (usage_history (server st)).
                         now - days * DAY < ug_recorded_at row \<and>
                         (if truthy name then Some (ug_account_name row) = name else True)}
           \<and> sorted (map use_recordedAt xs)))
   \<and> (\<not> isDatabaseEnabled st \<and>
       - MAX_TIME \<le> now - days * DAY \<and> now - days * DAY \<le> MAX_TIME \<longrightarrow>
        (\<exists>xs. getUsageHistory parseFloat st faults now name (Some days) = Inr xs
           \<and> xs = sort_key use_recordedAt
                    (filter (\<lambda>h. now - days * DAY < use_recordedAt h \<and>
                                (if truthy name then Some (use_accountName h) = name else True))
                       (loadUsageHistoryFromFile (files st)))
           \<and> set xs = {h \<in> set (loadUsageHistoryFromFile (files st)).
                         now - days * DAY < use_recordedAt h \<and>
                         (if truthy name then Some (use_accountName h) = name else True)}
           \<and> sorted (map use_recordedAt xs)))
   \<and> (isDatabaseEnabled st \<and>
       getUsageHistory parseFloat st faults now name (Some 30) = Inr ys \<and>
       ug_recorded_at old = now - 31 * DAY \<longrightarrow>
        (\<forall>y \<in> set ys. use_recordedAt y \<noteq> ug_recorded_at old))
   \<and> usage_history (server (snd (saveAccounts st faults accs encryptionEnabled encryptFn
        secret uid))) = usage_history (server st)
   \<and> usage_history (server (snd (savePassword st faults password))) = usage_history (server st)
   \<and> usage_history (server (snd (createUser st faults now username passwordHash role)))
       = usage_history (server st)
   \<and> usage_history (server (snd (deleteUser st faults u))) = usage_history (server st)
   \<and> usage_history (server (snd (saveWebhook st faults now webhook)))
       = usage_history (server st)
   \<and> usage_history (server (snd (deleteWebhook st faults webhookId)))
       = usage_history (server st)"
proof (intro conjI impI)
  assume f: "\<not> isDatabaseEnabled st \<and> writable (files st)"
  let ?st' = "snd (recordUsage toDecimal st faults now acc amt)"
  let ?new = "\<lparr>use_accountName = acc, use_usageAmount = amt, use_recordedAt = now\<rparr>"
  from f show "fst (recordUsage toDecimal st faults now acc amt) = Inr True"
    by (simp add: recordUsage_file)
  from f show stored: "loadUsageHistoryFromFile (files ?st')
      = filter (\<lambda>h. now - 30 * DAY < use_recordedAt h)
          (loadUsageHistoryFromFile (files st) @ [?new])"
    by (simp add: recordUsage_file)
  show "?new \<in> set (loadUsageHistoryFromFile (files ?st'))"
    unfolding stored by (simp add: DAY_def)
  show "\<forall>h \<in> set (loadUsageHistoryFromFile (files st)).
            now - 30 * DAY < use_recordedAt h \<longrightarrow>
            h \<in> set (loadUsageHistoryFromFile (files ?st'))"
    unfolding stored by simp
  show pruned: "\<forall>h \<in> set (loadUsageHistoryFromFile (files ?st')). now - 30 * DAY < use_recordedAt h"
    unfolding stored by simp
  show "\<forall>h. use_recordedAt h = now - 31 * DAY \<longrightarrow> h \<notin> set (loadUsageHistoryFromFile (files ?st'))"
    using pruned by (auto simp add: DAY_def)
  from f have mode: "\<not> isDatabaseEnabled ?st'"
    by (auto simp add: recordUsage_def Let_def isDatabaseEnabled_def ensureDataDir_def)
  show "\<forall>faults' later name days xs.
            getUsageHistory parseFloat ?st' faults' later name days = Inr xs \<longrightarrow>
            (\<forall>h \<in> set xs. now - 30 * DAY < use_recordedAt h)"
  proof (intro allI impI)
    fix faults' later name days xs
    assume g: "getUsageHistory parseFloat ?st' faults' later name days = Inr xs"
    from getUsageHistory_file_subset [OF mode g] pruned
    show "\<forall>h \<in> set xs. now - 30 * DAY < use_recordedAt h"
      by blast
  qed
next
  assume d: "isDatabaseEnabled st \<and> \<not> query_fails faults 0 \<and> toDecimal amt = Some d"
  then show "fst (recordUsage toDecimal st faults now acc amt) = Inr True"
    by (simp add: recordUsage_database)
  from d show "usage_history (server (snd (recordUsage toDecimal st faults now acc amt)))
            = usage_history (server st) @
                [\<lparr>ug_id = usage_history_id_seq (server st), ug_account_name = acc,
                  ug_usage_amount = d, ug_recorded_at = now\<rparr>]"
    by (simp add: recordUsage_database)
  from d show "usage_history_id_seq (server (snd (recordUsage toDecimal st faults now acc amt)))
            = usage_history_id_seq (server st) + 1"
    by (simp add: recordUsage_database)
next
  show "\<exists>added. usage_history (server (snd (recordUsage toDecimal st faults now acc amt)))
                 = usage_history (server st) @ added"
    by (rule recordUsage_keeps_rows)
next
  assume "isDatabaseEnabled st \<and> \<not> query_fails faults 0 \<and>
       - MAX_TIME \<le> now - days * DAY \<and> now - days * DAY \<le> MAX_TIME"
  then show "\<exists>xs. getUsageHistory parseFloat st faults now name (Some days) = Inr xs
           \<and> xs = map (\<lambda>row. \<lparr>use_accountName = ug_account_name row,
                                use_usageAmount = parseFloat (ug_usage_amount row),
                                use_recordedAt = ug_recorded_at row\<rparr>)
                    (sort_key ug_recorded_at
                       (filter (\<lambda>row. now - days * DAY < ug_recorded_at row \<and>
                                   (if truthy name then Some (ug_account_name row) = name
                                    else True))
                          (usage_history (server st))))
           \<and> set xs = (\<lambda>row. \<lparr>use_accountName = ug_account_name row,
                                use_usageAmount = parseFloat (ug_usage_amount row),
                                use_recordedAt = ug_recorded_at row\<rparr>) `
                       {row \<in> set (usage_history (server st)).
                         now - days * DAY < ug_recorded_at row \<and>
                         (if truthy name then Some (ug_account_name row) = name else True)}
           \<and> sorted (map use_recordedAt xs)"
    by (simp add: getUsageHistory_database)
next
  assume "\<not> isDatabaseEnabled st \<and>
       - MAX_TIME \<le> now - days * DAY \<and> now - days * DAY \<le> MAX_TIME"
  then show "\<exists>xs. getUsageHistory parseFloat st faults now name (Some days) = Inr xs
           \<and> xs = sort_key use_recordedAt
                    (filter (\<lambda>h. now - days * DAY < use_recordedAt h \<and>
                                (if truthy name then Some (use_accountName h) = name else True))
                       (loadUsageHistoryFromFile (files st)))
           \<and> set xs = {h \<in> set (loadUsageHistoryFromFile (files st)).
                         now - days * DAY < use_recordedAt h \<and>
                         (if truthy name then Some (use_accountName h) = name else True)}
           \<and> sorted (map use_recordedAt xs)"
    by (simp add: getUsageHistory_file)
next
  assume h: "isDatabaseEnabled st \<and>
       getUsageHistory parseFloat st faults now name (Some 30) = Inr ys \<and>
       ug_recorded_at old = now - 31 * DAY"
  with getUsageHistory_database_recent [of st parseFloat faults now name 30 ys]
  have "\<forall>y \<in> set ys. now - 30 * DAY < use_recordedAt y"
    by blast
  with h show "\<forall>y \<in> set ys. use_recordedAt y \<noteq> ug_recorded_at old"
    by (auto simp add: DAY_def)
next
  show "usage_history (server (snd (saveAccounts st faults accs encryptionEnabled encryptFn
        secret uid))) = usage_history (server st)"
    by (rule usage_history_untouched)
  show "usage_history (server (snd (savePassword st faults password))) = usage_history (server st)"
    by (rule usage_history_untouched)
  show "usage_history (server (snd (createUser st faults now username passwordHash role)))
       = usage_history (server st)"
    by (rule usage_history_untouched)
  show "usage_history (server (snd (deleteUser st faults u))) = usage_history (server st)"
    by (rule usage_history_untouched)
  show "usage_history (server (snd (saveWebhook st faults now webhook)))
       = usage_history (server st)"
    by (rule usage_history_untouched)
  show "usage_history (server (snd (deleteWebhook st faults webhookId)))
       = usage_history (server st)"
    by (rule usage_history_untouched)
qed

theorem usage_retention_asymmetry_witness:
  "loadUsageHistoryFromFile (files (snd (recordUsage
          (\<lambda>n. Some (if n = 7 then ''7.0000'' else ''5.0000''))
          ((file_mode :: (unit, nat) storage)\<lparr>files := fresh_files\<lparr>USAGE_HISTORY_FILE :=
             Parsed [\<lparr>use_accountName = ''acct'', use_usageAmount = 5, use_recordedAt = 1000\<rparr>,
                     \<lparr>use_accountName = ''acct'', use_usageAmount = 5,
                      use_recordedAt = 2592001000\<rparr>]\<rparr>\<rparr>)
          no_faults 2678401000 ''acct'' 7)))
     = [\<lparr>use_accountName = ''acct'', use_usageAmount = 5, use_recordedAt = 2592001000\<rparr>,
        \<lparr>use_accountName = ''acct'', use_usageAmount = 7, use_recordedAt = 2678401000\<rparr>]
   \<and> \<lparr>use_accountName = ''acct'', use_usageAmount = 5, use_recordedAt = 1000\<rparr>
     \<notin> set (loadUsageHistoryFromFile (files (snd (recordUsage
          (\<lambda>n. Some (if n = 7 then ''7.0000'' else ''5.0000''))
          ((file_mode :: (unit, nat) storage)\<lparr>files := fresh_files\<lparr>USAGE_HISTORY_FILE :=
             Parsed [\<lparr>use_accountName = ''acct'', use_usageAmount = 5, use_recordedAt = 1000\<rparr>,
                     \<lparr>use_accountName = ''acct'', use_usageAmount = 5,
                      use_recordedAt = 2592001000\<rparr>]\<rparr>\<rparr>)
          no_faults 2678401000 ''acct'' 7))))
   \<and> usage_history (server (snd (recordUsage
          (\<lambda>n. Some (if n = 7 then ''7.0000'' else ''5.0000''))
          ((database_mode :: (unit, nat) storage)\<lparr>server := fresh_server\<lparr>usage_history :=
             [\<lparr>ug_id = 1, ug_account_name = ''acct'', ug_usage_amount = ''5.0000'',
               ug_recorded_at = 1000\<rparr>], usage_history_id_seq := 2\<rparr>\<rparr>)
          no_faults 2678401000 ''acct'' 7)))
     = [\<lparr>ug_id = 1, ug_account_name = ''acct'', ug_usage_amount = ''5.0000'',
         ug_recorded_at = 1000\<rparr>,
        \<lparr>ug_id = 2, ug_account_name = ''acct'', ug_usage_amount = ''7.0000'',
         ug_recorded_at = 2678401000\<rparr>]
   \<and> getUsageHistory (\<lambda>s. if s = ''7.0000'' then 7 else 5) (snd (recordUsage
          (\<lambda>n. Some (if n = 7 then ''7.0000'' else ''5.0000''))
          ((database_mode :: (unit, nat) storage)\<lparr>server := fresh_server\<lparr>usage_history :=
             [\<lparr>ug_id = 1, ug_account_name = ''acct'', ug_usage_amount = ''5.0000'',
               ug_recorded_at = 1000\<rparr>], usage_history_id_seq := 2\<rparr>\<rparr>)
          no_faults 2678401000 ''acct'' 7)) no_faults 2678401000 None (Some 30)
       = Inr [\<lparr>use_accountName = ''acct'', use_usageAmount = 7, use_recordedAt = 2678401000\<rparr>]"
proof (intro conjI)
  let ?T = "\<lambda>n :: nat. Some (if n = 7 then ''7.0000'' else ''5.0000'')"
  let ?P = "\<lambda>s. if s = ''7.0000'' then 7 else 5 :: nat"
  let ?old = "\<lparr>use_accountName = ''acct'', use_usageAmount = 5 :: nat, use_recordedAt = 1000\<rparr>"
  let ?young = "\<lparr>use_accountName = ''acct'', use_usageAmount = 5 :: nat,
                 use_recordedAt = 2592001000\<rparr>"
  let ?row = "\<lparr>ug_id = 1, ug_account_name = ''acct'', ug_usage_amount = ''5.0000'',
               ug_recorded_at = 1000\<rparr>"
  let ?f = "(file_mode :: (unit, nat) storage)\<lparr>files := fresh_files\<lparr>USAGE_HISTORY_FILE :=
             Parsed [?old, ?young]\<rparr>\<rparr>"
  let ?d = "(database_mode :: (unit, nat) storage)\<lparr>server := fresh_server\<lparr>usage_history :=
             [?row], usage_history_id_seq := 2\<rparr>\<rparr>"
  have hf: "\<not> isDatabaseEnabled ?f \<and> writable (files ?f)"
    by (simp add: isDatabaseEnabled_def file_mode_def fresh_files_def)
  have before: "loadUsageHistoryFromFile (files ?f) = [?old, ?young]"
    by (simp add: loadUsageHistoryFromFile_def)
  have age: "use_recordedAt ?old = 2678401000 - 31 * DAY"
    by (simp add: DAY_def)
  note onfile = usage_retention_asymmetry [where st = ?f and faults = no_faults
      and now = 2678401000 and acc = "''acct''" and amt = 7 and toDecimal = ?T
      and parseFloat = ?P, THEN conjunct1, THEN mp, OF hf]
  from onfile
  have "loadUsageHistoryFromFile (files (snd (recordUsage ?T ?f no_faults 2678401000 ''acct'' 7)))
          = filter (\<lambda>h. 2678401000 - 30 * DAY < use_recordedAt h)
              (loadUsageHistoryFromFile (files ?f) @
                 [\<lparr>use_accountName = ''acct'', use_usageAmount = 7,
                   use_recordedAt = 2678401000\<rparr>])"
    by blast
  then show "loadUsageHistoryFromFile
               (files (snd (recordUsage ?T ?f no_faults 2678401000 ''acct'' 7)))
             = [?young, \<lparr>use_accountName = ''acct'', use_usageAmount = 7,
                          use_recordedAt = 2678401000\<rparr>]"
    unfolding before by (simp add: DAY_def)
  from onfile
  have "\<forall>h. use_recordedAt h = 2678401000 - 31 * DAY \<longrightarrow>
            h \<notin> set (loadUsageHistoryFromFile (files (snd (recordUsage ?T ?f no_faults
                     2678401000 ''acct'' 7))))"
    by blast
  with age show "?old \<notin> set (loadUsageHistoryFromFile (files (snd (recordUsage ?T ?f no_faults
                     2678401000 ''acct'' 7))))"
    by blast
  have hd: "isDatabaseEnabled ?d \<and> \<not> query_fails no_faults 0 \<and> ?T 7 = Some ''7.0000''"
    by (simp add: isDatabaseEnabled_def database_mode_def no_faults_def)
  from usage_retention_asymmetry [where st = ?d and faults = no_faults
      and now = 2678401000 and acc = "''acct''" and amt = 7 and toDecimal = ?T
      and d = "''7.0000''", THEN conjunct2, THEN conjunct1, THEN mp, OF hd]
  have t: "usage_history (server (snd (recordUsage ?T ?d no_faults 2678401000 ''acct'' 7)))
            = usage_history (server ?d) @
                [\<lparr>ug_id = usage_history_id_seq (server ?d), ug_account_name = ''acct'',
                  ug_usage_amount = ''7.0000'', ug_recorded_at = 2678401000\<rparr>]"
    by blast
  show "usage_history (server (snd (recordUsage ?T ?d no_faults 2678401000 ''acct'' 7)))
        = [?row, \<lparr>ug_id = 2, ug_account_name = ''acct'', ug_usage_amount = ''7.0000'',
                   ug_recorded_at = 2678401000\<rparr>]"
    unfolding t by simp
  show "getUsageHistory (\<lambda>s. if s = ''7.0000'' then 7 else 5)
          (snd (recordUsage ?T ?d no_faults 2678401000 ''acct'' 7)) no_faults
          2678401000 None (Some 30)
       = Inr [\<lparr>use_accountName = ''acct'', use_usageAmount = 7, use_recordedAt = 2678401000\<rparr>]"
    by (simp add: getUsageHistory_def recordUsage_def isDatabaseEnabled_def database_mode_def
        no_faults_def fresh_server_def DAY_def MAX_TIME_def newDate_def truthy_def)
qed


section \<open>Reading accounts\<close>

text \<open>
  Claim C9. \<^verbatim>\<open>loadAccounts\<close>, in both revisions, returns the empty list when the
  query of the database branch is rejected, and when the accounts file of the file
  branch is missing, cannot be read, or does not parse. No path of the function ends
  in an exception: its result is a list in every case.
\<close>

theorem loadAccounts_read_errors:
  "(isDatabaseEnabled st \<and> query_fails faults 0 \<longrightarrow>
      loadAccounts st faults encryptionEnabled decryptFn secret uid = []
      \<and> loadAccounts_v1 st faults encryptionEnabled decryptFn secret = [])
   \<and> (\<not> isDatabaseEnabled st \<and>
       (ACCOUNTS_FILE (files st) = Missing \<or> ACCOUNTS_FILE (files st) = Unreadable \<or>
        ACCOUNTS_FILE (files st) = Corrupt) \<longrightarrow>
      loadAccounts st faults encryptionEnabled decryptFn secret uid = []
      \<and> loadAccounts_v1 st faults encryptionEnabled decryptFn secret = [])"
  by (auto simp add: loadAccounts_def loadAccounts_v1_def)

theorem loadAccounts_read_errors_witness:
  "loadAccounts ((database_mode :: (string, unit) storage)\<lparr>server := fresh_server\<lparr>accounts :=
       [\<lparr>ar_id = 1, ar_user_id = None, ar_name = ''main'', ar_token = Some ''sk-1'',
         ar_encrypted_token = None\<rparr>]\<rparr>\<rparr>)
     (no_faults\<lparr>query_fails := (\<lambda>k. True)\<rparr>) False (\<lambda>c k. Inr c) ''key'' None = []
   \<and> loadAccounts_v1 ((file_mode :: (string, unit) storage)\<lparr>files :=
       fresh_files\<lparr>ACCOUNTS_FILE := Corrupt\<rparr>\<rparr>)
     no_faults False (\<lambda>c k. Inr c) ''key'' = []"
proof (intro conjI)
  let ?d = "(database_mode :: (string, unit) storage)\<lparr>server := fresh_server\<lparr>accounts :=
       [\<lparr>ar_id = 1, ar_user_id = None, ar_name = ''main'', ar_token = Some ''sk-1'',
         ar_encrypted_token = None\<rparr>]\<rparr>\<rparr>"
  let ?f = "(file_mode :: (string, unit) storage)\<lparr>files :=
       fresh_files\<lparr>ACCOUNTS_FILE := Corrupt\<rparr>\<rparr>"
  have "isDatabaseEnabled ?d \<and> query_fails (no_faults\<lparr>query_fails := (\<lambda>k. True)\<rparr>) 0"
    by (simp add: isDatabaseEnabled_def database_mode_def)
  with loadAccounts_read_errors [of ?d "no_faults\<lparr>query_fails := (\<lambda>k. True)\<rparr>" False
      "\<lambda>c k. Inr c" "''key''" None]
  show "loadAccounts ?d (no_faults\<lparr>query_fails := (\<lambda>k. True)\<rparr>) False (\<lambda>c k. Inr c) ''key'' None = []"
    by blast
  have "\<not> isDatabaseEnabled ?f \<and> ACCOUNTS_FILE (files ?f) = Corrupt"
    by (simp add: isDatabaseEnabled_def file_mode_def)
  with loadAccounts_read_errors [of ?f no_faults False "\<lambda>c k. Inr c" "''key''" None]
  show "loadAccounts_v1 ?f no_faults False (\<lambda>c k. Inr c) ''key'' = []"
    by blast
qed

lemma decryptAccount_cases:
  "acc_encryptedToken a = None \<Longrightarrow> decryptAccount decryptFn secret a = a"
  "acc_encryptedToken a = Some c \<Longrightarrow> decryptFn c secret = Inr t \<Longrightarrow>
     decryptAccount decryptFn secret a = a\<lparr>acc_token := Some t, acc_encryptedToken := None\<rparr>"
  "acc_encryptedToken a = Some c \<Longrightarrow> decryptFn c secret = Inl e \<Longrightarrow>
     decryptAccount decryptFn secret a = a"
  by (simp_all add: decryptAccount_def)

lemma decryptRow_cases:
  "ar_encrypted_token r = None \<Longrightarrow>
     decryptRow enc decryptFn secret r
       = \<lparr>acc_name = ar_name r, acc_token = ar_token r, acc_encryptedToken = None\<rparr>"
  "ar_encrypted_token r = Some c \<Longrightarrow> decryptFn c secret = Inr t \<Longrightarrow>
     decryptRow True decryptFn secret r
       = \<lparr>acc_name = ar_name r, acc_token = Some t, acc_encryptedToken = None\<rparr>"
  "ar_encrypted_token r = Some c \<Longrightarrow> decryptFn c secret = Inl e \<Longrightarrow>
     decryptRow True decryptFn secret r
       = \<lparr>acc_name = ar_name r, acc_token = ar_token r, acc_encryptedToken = None\<rparr>"
  by (simp_all add: decryptRow_def)

text \<open>
  Claim C5. With encryption enabled, when one stored record carries a ciphertext that
  \<^verbatim>\<open>decryptFn\<close> rejects, \<^verbatim>\<open>loadAccounts\<close> returns a record for it and for every
  other one, in order. The file backend returns the damaged record as stored
  (ciphertext unresolved, clear token if the record has one); the database backend
  returns its name with the clear \<^verbatim>\<open>token\<close> column. Every other record is returned as
  if alone: with the decrypted token when its ciphertext decrypts, as stored when it
  has none.
\<close>

theorem loadAccounts_isolates_corruption:
  "(\<not> isDatabaseEnabled st \<and> ACCOUNTS_FILE (files st) = Parsed (pre @ [bad] @ post) \<and>
    acc_encryptedToken bad = Some c \<and> decryptFn c secret = Inl e \<longrightarrow>
      loadAccounts st faults True decryptFn secret uid
        = map (decryptAccount decryptFn secret) pre @ [bad] @
          map (decryptAccount decryptFn secret) post)
   \<and> (acc_encryptedToken a = Some c' \<and> decryptFn c' secret = Inr t \<longrightarrow>
        decryptAccount decryptFn secret a = a\<lparr>acc_token := Some t, acc_encryptedToken := None\<rparr>)
   \<and> (acc_encryptedToken a = None \<longrightarrow> decryptAccount decryptFn secret a = a)
   \<and> (isDatabaseEnabled st \<and> \<not> query_fails faults 0 \<and>
       selectAccounts uid (accounts (server st)) = before @ [row] @ after \<and>
       ar_encrypted_token row = Some c \<and> decryptFn c secret = Inl e \<longrightarrow>
      loadAccounts st faults True decryptFn secret uid
        = map (decryptRow True decryptFn secret) before @
          [\<lparr>acc_name = ar_name row, acc_token = ar_token row, acc_encryptedToken = None\<rparr>] @
          map (decryptRow True decryptFn secret) after)
   \<and> (ar_encrypted_token r = Some c' \<and> decryptFn c' secret = Inr t \<longrightarrow>
        decryptRow True decryptFn secret r
          = \<lparr>acc_name = ar_name r, acc_token = Some t, acc_encryptedToken = None\<rparr>)
   \<and> (ar_encrypted_token r = None \<longrightarrow>
        decryptRow True decryptFn secret r
          = \<lparr>acc_name = ar_name r, acc_token = ar_token r, acc_encryptedToken = None\<rparr>)"
  by (simp add: loadAccounts_def decryptAccount_cases decryptRow_cases)


theorem loadAccounts_isolates_corruption_witness:
  "loadAccounts
     ((file_mode :: (string, unit) storage)\<lparr>files := fresh_files\<lparr>ACCOUNTS_FILE := Parsed
        [\<lparr>acc_name = ''a'', acc_token = None, acc_encryptedToken = Some ''x1''\<rparr>,
         \<lparr>acc_name = ''b'', acc_token = None, acc_encryptedToken = Some ''bad''\<rparr>,
         \<lparr>acc_name = ''c'', acc_token = None, acc_encryptedToken = Some ''x3''\<rparr>]\<rparr>\<rparr>)
     no_faults True (\<lambda>c k. if c = ''bad'' then Inl CryptoError else Inr (''sk-'' @ c)) ''key'' None
   = [\<lparr>acc_name = ''a'', acc_token = Some ''sk-x1'', acc_encryptedToken = None\<rparr>,
      \<lparr>acc_name = ''b'', acc_token = None, acc_encryptedToken = Some ''bad''\<rparr>,
      \<lparr>acc_name = ''c'', acc_token = Some ''sk-x3'', acc_encryptedToken = None\<rparr>]
   \<and> loadAccounts
     ((database_mode :: (string, unit) storage)\<lparr>server := fresh_server\<lparr>accounts :=
        [\<lparr>ar_id = 1, ar_user_id = None, ar_name = ''a'', ar_token = None,
          ar_encrypted_token = Some ''x1''\<rparr>,
         \<lparr>ar_id = 2, ar_user_id = None, ar_name = ''b'', ar_token = None,
          ar_encrypted_token = Some ''bad''\<rparr>,
         \<lparr>ar_id = 3, ar_user_id = None, ar_name = ''c'', ar_token = None,
          ar_encrypted_token = Some ''x3''\<rparr>]\<rparr>\<rparr>)
     no_faults True (\<lambda>c k. if c = ''bad'' then Inl CryptoError else Inr (''sk-'' @ c)) ''key'' None
   = [\<lparr>acc_name = ''a'', acc_token = Some ''sk-x1'', acc_encryptedToken = None\<rparr>,
      \<lparr>acc_name = ''b'', acc_token = None, acc_encryptedToken = None\<rparr>,
      \<lparr>acc_name = ''c'', acc_token = Some ''sk-x3'', acc_encryptedToken = None\<rparr>]"
proof (intro conjI)
  let ?dec = "\<lambda>(c :: string) (k :: string). if c = ''bad'' then Inl CryptoError else Inr (''sk-'' @ c)"
  let ?a = "\<lparr>acc_name = ''a'', acc_token = None, acc_encryptedToken = Some ''x1''\<rparr>"
  let ?b = "\<lparr>acc_name = ''b'', acc_token = None, acc_encryptedToken = Some ''bad''\<rparr>"
  let ?c = "\<lparr>acc_name = ''c'', acc_token = None, acc_encryptedToken = Some ''x3''\<rparr>"
  let ?f = "(file_mode :: (string, unit) storage)\<lparr>files := fresh_files\<lparr>ACCOUNTS_FILE := Parsed
        [?a, ?b, ?c]\<rparr>\<rparr>"
  let ?ra = "\<lparr>ar_id = 1, ar_user_id = None, ar_name = ''a'', ar_token = None,
          ar_encrypted_token = Some ''x1''\<rparr>"
  let ?rb = "\<lparr>ar_id = 2, ar_user_id = None, ar_name = ''b'', ar_token = None,
          ar_encrypted_token = Some ''bad''\<rparr>"
  let ?rc = "\<lparr>ar_id = 3, ar_user_id = None, ar_name = ''c'', ar_token = None,
          ar_encrypted_token = Some ''x3''\<rparr>"
  let ?d = "(database_mode :: (string, unit) storage)\<lparr>server := fresh_server\<lparr>accounts :=
        [?ra, ?rb, ?rc]\<rparr>\<rparr>"
  have hf: "\<not> isDatabaseEnabled ?f \<and> ACCOUNTS_FILE (files ?f) = Parsed ([?a] @ [?b] @ [?c]) \<and>
    acc_encryptedToken ?b = Some ''bad'' \<and> ?dec ''bad'' ''key'' = Inl CryptoError"
    by (simp add: isDatabaseEnabled_def file_mode_def)
  from loadAccounts_isolates_corruption [of ?f "[?a]" ?b "[?c]" "''bad''" ?dec "''key''"
      CryptoError no_faults None ?a "''x1''" "''sk-x1''" "[?ra]" ?rb "[?rc]" ?ra] hf
  have "loadAccounts ?f no_faults True ?dec ''key'' None
        = map (decryptAccount ?dec ''key'') [?a] @ [?b] @ map (decryptAccount ?dec ''key'') [?c]"
    by blast
  then show "loadAccounts ?f no_faults True ?dec ''key'' None
    = [\<lparr>acc_name = ''a'', acc_token = Some ''sk-x1'', acc_encryptedToken = None\<rparr>, ?b,
       \<lparr>acc_name = ''c'', acc_token = Some ''sk-x3'', acc_encryptedToken = None\<rparr>]"
    by (simp add: decryptAccount_def)
  have hd: "isDatabaseEnabled ?d \<and> \<not> query_fails no_faults 0 \<and>
       selectAccounts None (accounts (server ?d)) = [?ra] @ [?rb] @ [?rc] \<and>
       ar_encrypted_token ?rb = Some ''bad'' \<and> ?dec ''bad'' ''key'' = Inl CryptoError"
    by (simp add: isDatabaseEnabled_def database_mode_def no_faults_def selectAccounts_def
        given_def)
  from loadAccounts_isolates_corruption [of ?d "[?a]" ?b "[?c]" "''bad''" ?dec "''key''"
      CryptoError no_faults None ?a "''x1''" "''sk-x1''" "[?ra]" ?rb "[?rc]" ?ra] hd
  have "loadAccounts ?d no_faults True ?dec ''key'' None
        = map (decryptRow True ?dec ''key'') [?ra] @
          [\<lparr>acc_name = ar_name ?rb, acc_token = ar_token ?rb, acc_encryptedToken = None\<rparr>] @
          map (decryptRow True ?dec ''key'') [?rc]"
    by blast
  then show "loadAccounts ?d no_faults True ?dec ''key'' None
    = [\<lparr>acc_name = ''a'', acc_token = Some ''sk-x1'', acc_encryptedToken = None\<rparr>,
       \<lparr>acc_name = ''b'', acc_token = None, acc_encryptedToken = None\<rparr>,
       \<lparr>acc_name = ''c'', acc_token = Some ''sk-x3'', acc_encryptedToken = None\<rparr>]"
    by (simp add: decryptRow_def)
qed



section \<open>Deleting a user\<close>

lemma findIndex_Some:
  "findIndex P xs = Some i \<Longrightarrow> i < length xs \<and> P (xs ! i) \<and> (\<forall>j < i. \<not> P (xs ! j))"
proof (induction xs arbitrary: i)
  case Nil
  then show ?case by simp
next
  case (Cons x xs)
  show ?case
  proof (cases "P x")
    case True
    with Cons.prems show ?thesis by simp
  next
    case False
    with Cons.prems obtain k where k: "findIndex P xs = Some k" and i: "i = k + 1"
      by (auto split: option.splits)
    from Cons.IH [OF k] have "k < length xs \<and> P (xs ! k) \<and> (\<forall>j < k. \<not> P (xs ! j))" .
    with False i show ?thesis
      by (auto simp add: nth_Cons split: nat.splits)
  qed
qed

text \<open>
  Claim C7, as the code has it. In the database \<^verbatim>\<open>deleteUser\<close>, when its query is
  accepted, removes the user and, through the cascading foreign keys, every account
  and every webhook whose \<^verbatim>\<open>user_id\<close> is that user; the other rows stay. In the file
  backend it removes the first stored user with that id from the users file and
  leaves the accounts file and the webhooks file as they were.
\<close>

theorem deleteUser_cascade:
  "(isDatabaseEnabled st \<and> \<not> query_fails faults 0 \<and> deleteUser st faults uid = (r, st') \<longrightarrow>
      r = Inr (list_ex (\<lambda>u. usr_id u = uid) (users (server st)))
      \<and> users (server st') = filter (\<lambda>u. usr_id u \<noteq> uid) (users (server st))
      \<and> accounts (server st') = filter (\<lambda>a. ar_user_id a \<noteq> Some uid) (accounts (server st))
      \<and> webhooks (server st') = filter (\<lambda>w. wh_userId w \<noteq> Some uid) (webhooks (server st))
      \<and> (\<forall>u \<in> set (users (server st')). usr_id u \<noteq> uid)
      \<and> (\<forall>a \<in> set (accounts (server st')). ar_user_id a \<noteq> Some uid)
      \<and> (\<forall>w \<in> set (webhooks (server st')). wh_userId w \<noteq> Some uid))
   \<and> (\<not> isDatabaseEnabled st \<and> deleteUser st faults uid = (r, st') \<longrightarrow>
        ACCOUNTS_FILE (files st') = ACCOUNTS_FILE (files st)
        \<and> WEBHOOKS_FILE (files st') = WEBHOOKS_FILE (files st)
        \<and> (r = Inr True \<longrightarrow>
             (\<exists>i. findIndex (\<lambda>u. usr_id u = uid) (loadUsersFromFile (files st)) = Some i
                \<and> i < length (loadUsersFromFile (files st))
                \<and> usr_id (loadUsersFromFile (files st) ! i) = uid
                \<and> loadUsersFromFile (files st')
                    = splice1 i (loadUsersFromFile (files st)))))"
proof (intro conjI impI)
  assume h: "isDatabaseEnabled st \<and> \<not> query_fails faults 0 \<and> deleteUser st faults uid = (r, st')"
  then have r: "r = Inr (list_ex (\<lambda>u. usr_id u = uid) (users (server st)))"
    and st': "st' = st\<lparr>server := (server st)\<lparr>
                    users := filter (\<lambda>u. usr_id u \<noteq> uid) (users (server st)),
                    accounts := filter (\<lambda>r. ar_user_id r \<noteq> Some uid) (accounts (server st)),
                    webhooks := filter (\<lambda>w. wh_userId w \<noteq> Some uid)
                                  (webhooks (server st))\<rparr>\<rparr>"
    by (auto simp add: deleteUser_def)
  show "r = Inr (list_ex (\<lambda>u. usr_id u = uid) (users (server st)))"
    by (rule r)
  show "users (server st') = filter (\<lambda>u. usr_id u \<noteq> uid) (users (server st))"
    unfolding st' by simp
  show "accounts (server st') = filter (\<lambda>a. ar_user_id a \<noteq> Some uid) (accounts (server st))"
    unfolding st' by simp
  show "webhooks (server st') = filter (\<lambda>w. wh_userId w \<noteq> Some uid) (webhooks (server st))"
    unfolding st' by simp
  show "\<forall>u \<in> set (users (server st')). usr_id u \<noteq> uid"
    unfolding st' by simp
  show "\<forall>a \<in> set (accounts (server st')). ar_user_id a \<noteq> Some uid"
    unfolding st' by simp
  show "\<forall>w \<in> set (webhooks (server st')). wh_userId w \<noteq> Some uid"
    unfolding st' by simp
next
  assume h: "\<not> isDatabaseEnabled st \<and> deleteUser st faults uid = (r, st')"
  then show "ACCOUNTS_FILE (files st') = ACCOUNTS_FILE (files st)"
    by (auto simp add: deleteUser_def Let_def split: option.splits if_splits)
  from h show "WEBHOOKS_FILE (files st') = WEBHOOKS_FILE (files st)"
    by (auto simp add: deleteUser_def Let_def split: option.splits if_splits)
  assume t: "r = Inr True"
  from h t obtain i where i: "findIndex (\<lambda>u. usr_id u = uid) (loadUsersFromFile (files st)) = Some i"
    and s: "loadUsersFromFile (files st') = splice1 i (loadUsersFromFile (files st))"
    by (auto simp add: deleteUser_def Let_def loadUsersFromFile_def
        split: option.splits if_splits)
  from findIndex_Some [OF i] i s
  show "\<exists>i. findIndex (\<lambda>u. usr_id u = uid) (loadUsersFromFile (files st)) = Some i
                \<and> i < length (loadUsersFromFile (files st))
                \<and> usr_id (loadUsersFromFile (files st) ! i) = uid
                \<and> loadUsersFromFile (files st')
                    = splice1 i (loadUsersFromFile (files st))"
    by blast
qed


theorem deleteUser_cascade_witness:
  "fst (deleteUser
     ((database_mode :: (unit, unit) storage)\<lparr>server := fresh_server\<lparr>
        users := [\<lparr>usr_id = 1, usr_username = ''alice'', usr_passwordHash = ''h1'',
                   usr_role = ''user'', usr_createdAt = 10\<rparr>,
                  \<lparr>usr_id = 2, usr_username = ''bob'', usr_passwordHash = ''h2'',
                   usr_role = ''user'', usr_createdAt = 20\<rparr>],
        accounts := [\<lparr>ar_id = 1, ar_user_id = Some 1, ar_name = ''a1'', ar_token = Some ''t1'',
                      ar_encrypted_token = None\<rparr>,
                     \<lparr>ar_id = 2, ar_user_id = Some 2, ar_name = ''a2'', ar_token = Some ''t2'',
                      ar_encrypted_token = None\<rparr>],
        webhooks := [\<lparr>wh_id = ''w1'', wh_userId = Some 1, wh_name = None,
                      wh_url = ''https://a.example/hook'', wh_secret = None, wh_events = None,
                      wh_enabled = True, wh_createdAt = 30\<rparr>]\<rparr>\<rparr>)
     no_faults 1) = Inr True
   \<and> map ar_name (accounts (server (snd (deleteUser
     ((database_mode :: (unit, unit) storage)\<lparr>server := fresh_server\<lparr>
        users := [\<lparr>usr_id = 1, usr_username = ''alice'', usr_passwordHash = ''h1'',
                   usr_role = ''user'', usr_createdAt = 10\<rparr>,
                  \<lparr>usr_id = 2, usr_username = ''bob'', usr_passwordHash = ''h2'',
                   usr_role = ''user'', usr_createdAt = 20\<rparr>],
        accounts := [\<lparr>ar_id = 1, ar_user_id = Some 1, ar_name = ''a1'', ar_token = Some ''t1'',
                      ar_encrypted_token = None\<rparr>,
                     \<lparr>ar_id = 2, ar_user_id = Some 2, ar_name = ''a2'', ar_token = Some ''t2'',
                      ar_encrypted_token = None\<rparr>],
        webhooks := [\<lparr>wh_id = ''w1'', wh_userId = Some 1, wh_name = None,
                      wh_url = ''https://a.example/hook'', wh_secret = None, wh_events = None,
                      wh_enabled = True, wh_createdAt = 30\<rparr>]\<rparr>\<rparr>)
     no_faults 1)))) = [''a2'']
   \<and> webhooks (server (snd (deleteUser
     ((database_mode :: (unit, unit) storage)\<lparr>server := fresh_server\<lparr>
        users := [\<lparr>usr_id = 1, usr_username = ''alice'', usr_passwordHash = ''h1'',
                   usr_role = ''user'', usr_createdAt = 10\<rparr>,
                  \<lparr>usr_id = 2, usr_username = ''bob'', usr_passwordHash = ''h2'',
                   usr_role = ''user'', usr_createdAt = 20\<rparr>],
        accounts := [\<lparr>ar_id = 1, ar_user_id = Some 1, ar_name = ''a1'', ar_token = Some ''t1'',
                      ar_encrypted_token = None\<rparr>,
                     \<lparr>ar_id = 2, ar_user_id = Some 2, ar_name = ''a2'', ar_token = Some ''t2'',
                      ar_encrypted_token = None\<rparr>],
        webhooks := [\<lparr>wh_id = ''w1'', wh_userId = Some 1, wh_name = None,
                      wh_url = ''https://a.example/hook'', wh_secret = None, wh_events = None,
                      wh_enabled = True, wh_createdAt = 30\<rparr>]\<rparr>\<rparr>)
     no_faults 1))) = []
   \<and> WEBHOOKS_FILE (files (snd (deleteUser
     ((file_mode :: (unit, unit) storage)\<lparr>files := fresh_files\<lparr>
        USERS_FILE := Parsed [\<lparr>usr_id = 1, usr_username = ''alice'', usr_passwordHash = ''h1'',
                   usr_role = ''user'', usr_createdAt = 10\<rparr>],
        WEBHOOKS_FILE := Parsed []\<rparr>\<rparr>)
     no_faults 1))) = Parsed []"
proof -
  let ?d = "(database_mode :: (unit, unit) storage)\<lparr>server := fresh_server\<lparr>
        users := [\<lparr>usr_id = 1, usr_username = ''alice'', usr_passwordHash = ''h1'',
                   usr_role = ''user'', usr_createdAt = 10\<rparr>,
                  \<lparr>usr_id = 2, usr_username = ''bob'', usr_passwordHash = ''h2'',
                   usr_role = ''user'', usr_createdAt = 20\<rparr>],
        accounts := [\<lparr>ar_id = 1, ar_user_id = Some 1, ar_name = ''a1'', ar_token = Some ''t1'',
                      ar_encrypted_token = None\<rparr>,
                     \<lparr>ar_id = 2, ar_user_id = Some 2, ar_name = ''a2'', ar_token = Some ''t2'',
                      ar_encrypted_token = None\<rparr>],
        webhooks := [\<lparr>wh_id = ''w1'', wh_userId = Some 1, wh_name = None,
                      wh_url = ''https://a.example/hook'', wh_secret = None, wh_events = None,
                      wh_enabled = True, wh_createdAt = 30\<rparr>]\<rparr>\<rparr>"
  let ?f = "(file_mode :: (unit, unit) storage)\<lparr>files := fresh_files\<lparr>
        USERS_FILE := Parsed [\<lparr>usr_id = 1, usr_username = ''alice'', usr_passwordHash = ''h1'',
                   usr_role = ''user'', usr_createdAt = 10\<rparr>],
        WEBHOOKS_FILE := Parsed []\<rparr>\<rparr>"
  let ?rd = "deleteUser ?d no_faults 1"
  let ?rf = "deleteUser ?f no_faults 1"
  have hd: "isDatabaseEnabled ?d \<and> \<not> query_fails no_faults 0 \<and> ?rd = (fst ?rd, snd ?rd)"
    by (simp add: isDatabaseEnabled_def database_mode_def no_faults_def)
  from deleteUser_cascade [of ?d no_faults 1 "fst ?rd" "snd ?rd"] hd
  have "fst ?rd = Inr (list_ex (\<lambda>u. usr_id u = 1) (users (server ?d)))
      \<and> accounts (server (snd ?rd)) = filter (\<lambda>a. ar_user_id a \<noteq> Some 1) (accounts (server ?d))
      \<and> webhooks (server (snd ?rd)) = filter (\<lambda>w. wh_userId w \<noteq> Some 1) (webhooks (server ?d))"
    by blast
  then have d: "fst ?rd = Inr True \<and> map ar_name (accounts (server (snd ?rd))) = [''a2'']
      \<and> webhooks (server (snd ?rd)) = []"
    by simp
  have hf: "\<not> isDatabaseEnabled ?f \<and> ?rf = (fst ?rf, snd ?rf)"
    by (simp add: isDatabaseEnabled_def file_mode_def)
  from deleteUser_cascade [of ?f no_faults 1 "fst ?rf" "snd ?rf"] hf
  have "WEBHOOKS_FILE (files (snd ?rf)) = WEBHOOKS_FILE (files ?f)"
    by blast
  then have "WEBHOOKS_FILE (files (snd ?rf)) = Parsed []"
    by simp
  with d show ?thesis
    by blast
qed

text \<open>
  Claim C7 as stated fails in the file backend, which has no cleanup: after creating
  a user, saving a webhook owned by that user and deleting the user, the webhook is
  still stored.
\<close>

theorem deleteUser_file_keeps_webhooks_counterexample:
  "(let s1 = snd (createUser (file_mode :: (unit, unit) storage) no_faults 1 ''alice'' ''h1'' None);
        w = \<lparr>wh_id = ''w1'', wh_userId = Some 1, wh_name = None,
             wh_url = ''https://a.example/hook'', wh_secret = None, wh_events = None,
             wh_enabled = True, wh_createdAt = 2\<rparr>;
        s2 = snd (saveWebhook s1 no_faults 2 w);
        s3 = snd (deleteUser s2 no_faults 1)
    in map usr_id (loadUsersFromFile (files s2)) = [1]
       \<and> fst (deleteUser s2 no_faults 1) = Inr True
       \<and> loadUsersFromFile (files s3) = []
       \<and> getWebhooks s3 no_faults (Some 1) = Inr [w]
       \<and> wh_userId w = Some 1)"
  by (simp add: Let_def createUser_def saveWebhook_def deleteUser_def getWebhooks_def
      ensureDataDir_def loadUsersFromFile_def isDatabaseEnabled_def file_mode_def
      fresh_files_def splice1_def)



section \<open>Saving accounts in the database\<close>

lemma client_query_begun:
  "client_query faults us stmt cl = (ok, cl') \<Longrightarrow>
   stmt \<noteq> BEGIN \<Longrightarrow> stmt \<noteq> COMMIT \<Longrightarrow> stmt \<noteq> ROLLBACK \<Longrightarrow>
   cl_begun cl' = cl_begun cl"
  by (auto simp add: client_query_def server_rejects_def Let_def
      split: if_splits statement.splits)

lemma client_query_rejected_begun:
  "client_query faults us stmt cl = (False, cl') \<Longrightarrow> cl_begun cl' = cl_begun cl"
  by (auto simp add: client_query_def server_rejects_def Let_def
      split: if_splits statement.splits option.splits)

lemma client_query_BEGIN:
  "client_query faults us BEGIN cl = (True, cl') \<Longrightarrow> cl_begun cl = None \<Longrightarrow>
   cl_begun cl' = Some (cl_accounts cl) \<and> cl_seq cl' = cl_seq cl
   \<and> cl_accounts cl' = cl_accounts cl \<and> \<not> cl_failed cl'"
  by (auto simp add: client_query_def server_rejects_def Let_def split: if_splits)

lemma committed_rejected:
  "client_query faults us stmt cl = (False, cl') \<Longrightarrow> committed cl' = committed cl"
  by (auto simp add: client_query_def server_rejects_def committed_def Let_def
      split: if_splits statement.splits option.splits)

lemma committed_ROLLBACK:
  "committed (snd (client_query faults us ROLLBACK cl)) = committed cl"
  by (auto simp add: client_query_def server_rejects_def rolled_back_def committed_def Let_def
      split: option.splits)

lemma insertAccount_begun:
  "insertAccount faults us encryptionEnabled encryptFn secret uid account cl = (ok, cl') \<Longrightarrow>
   cl_begun cl' = cl_begun cl"
  by (auto simp add: insertAccount_def dest!: client_query_begun
      split: if_splits sum.splits prod.splits bool.splits)

lemma insertAccounts_begun:
  "insertAccounts faults us encryptionEnabled encryptFn secret uid accs cl = (ok, cl') \<Longrightarrow>
   cl_begun cl' = cl_begun cl"
proof (induction accs arbitrary: cl)
  case Nil
  then show ?case by simp
next
  case (Cons a accs)
  obtain ok1 cl1 where s: "insertAccount faults us encryptionEnabled encryptFn secret uid a cl
      = (ok1, cl1)" by (cases "insertAccount faults us encryptionEnabled encryptFn secret uid a cl")
  have b: "cl_begun cl1 = cl_begun cl" by (rule insertAccount_begun [OF s])
  show ?case
  proof (cases ok1)
    case True
    with Cons.prems s
    have "insertAccounts faults us encryptionEnabled encryptFn secret uid accs cl1 = (ok, cl')"
      by simp
    from Cons.IH [OF this] b show ?thesis by simp
  next
    case False
    with Cons.prems s have "cl' = cl1" by simp
    with b show ?thesis by simp
  qed
qed


lemma deleteStatement_body:
  "deleteStatement uid \<noteq> BEGIN" "deleteStatement uid \<noteq> COMMIT" "deleteStatement uid \<noteq> ROLLBACK"
  by (simp_all add: deleteStatement_def)

lemma saveTransaction_not_committed:
  assumes run: "saveTransaction faults us encryptionEnabled encryptFn secret uid accs cl = (False, cl')"
    and outside: "cl_begun cl = None"
  shows "committed cl' = cl_accounts cl"
proof -
  obtain ok1 cl1 where s1: "client_query faults us BEGIN cl = (ok1, cl1)"
    by (cases "client_query faults us BEGIN cl")
  show ?thesis
  proof (cases ok1)
    case False
    with run s1 have "cl' = cl1" by (simp add: saveTransaction_def)
    with committed_rejected [of faults us BEGIN cl cl1] s1 False outside show ?thesis
      by (simp add: committed_def)
  next
    case True
    with client_query_BEGIN [of faults us cl cl1] s1 outside
    have b1: "cl_begun cl1 = Some (cl_accounts cl)" by simp
    obtain ok2 cl2 where s2: "client_query faults us (deleteStatement uid) cl1 = (ok2, cl2)"
      by (cases "client_query faults us (deleteStatement uid) cl1")
    from client_query_begun [OF s2 deleteStatement_body] b1
    have b2: "cl_begun cl2 = Some (cl_accounts cl)" by simp
    obtain ok3 cl3 where s3:
      "insertAccounts faults us encryptionEnabled encryptFn secret uid accs cl2 = (ok3, cl3)"
      by (cases "insertAccounts faults us encryptionEnabled encryptFn secret uid accs cl2")
    from insertAccounts_begun [OF s3] b2
    have b3: "cl_begun cl3 = Some (cl_accounts cl)" by simp
    have "cl_begun cl' = Some (cl_accounts cl)"
    proof (cases ok2)
      case False
      with run s1 True s2 have "cl' = cl2" by (simp add: saveTransaction_def)
      with b2 show ?thesis by simp
    next
      case ok2: True
      show ?thesis
      proof (cases ok3)
        case False
        with run s1 True s2 ok2 s3 have "cl' = cl3" by (simp add: saveTransaction_def)
        with b3 show ?thesis by simp
      next
        case ok3: True
        with run s1 True s2 ok2 s3 have "client_query faults us COMMIT cl3 = (False, cl')"
          by (simp add: saveTransaction_def)
        from client_query_rejected_begun [OF this] b3 show ?thesis by simp
      qed
    qed
    then show ?thesis by (simp add: committed_def)
  qed
qed

lemma saveTransaction_v1_not_committed:
  assumes run: "saveTransaction_v1 faults encryptionEnabled encryptFn secret accs cl = (False, cl')"
    and outside: "cl_begun cl = None"
  shows "committed cl' = cl_accounts cl"
proof -
  obtain ok1 cl1 where s1: "client_query faults [] BEGIN cl = (ok1, cl1)"
    by (cases "client_query faults [] BEGIN cl")
  show ?thesis
  proof (cases ok1)
    case False
    with run s1 have "cl' = cl1" by (simp add: saveTransaction_v1_def)
    with committed_rejected [of faults "[]" BEGIN cl cl1] s1 False outside show ?thesis
      by (simp add: committed_def)
  next
    case True
    with client_query_BEGIN [of faults "[]" cl cl1] s1 outside
    have b1: "cl_begun cl1 = Some (cl_accounts cl)" by simp
    obtain ok2 cl2 where s2: "client_query faults [] DELETE_ALL cl1 = (ok2, cl2)"
      by (cases "client_query faults [] DELETE_ALL cl1")
    from client_query_begun [OF s2] b1
    have b2: "cl_begun cl2 = Some (cl_accounts cl)" by simp
    obtain ok3 cl3 where s3:
      "insertAccounts faults [] encryptionEnabled encryptFn secret None accs cl2 = (ok3, cl3)"
      by (cases "insertAccounts faults [] encryptionEnabled encryptFn secret None accs cl2")
    from insertAccounts_begun [OF s3] b2
    have b3: "cl_begun cl3 = Some (cl_accounts cl)" by simp
    have "cl_begun cl' = Some (cl_accounts cl)"
    proof (cases ok2)
      case False
      with run s1 True s2 have "cl' = cl2" by (simp add: saveTransaction_v1_def)
      with b2 show ?thesis by simp
    next
      case ok2: True
      show ?thesis
      proof (cases ok3)
        case False
        with run s1 True s2 ok2 s3 have "cl' = cl3" by (simp add: saveTransaction_v1_def)
        with b3 show ?thesis by simp
      next
        case ok3: True
        with run s1 True s2 ok2 s3 have "client_query faults [] COMMIT cl3 = (False, cl')"
          by (simp add: saveTransaction_v1_def)
        from client_query_rejected_begun [OF this] b3 show ?thesis by simp
      qed
    qed
    then show ?thesis by (simp add: committed_def)
  qed
qed

lemma connect_outside:
  "cl_begun (connect st) = None" "cl_accounts (connect st) = accounts (server st)"
  "cl_seq (connect st) = accounts_id_seq (server st)" "\<not> cl_failed (connect st)"
  "cl_sent (connect st) = 0"
  by (simp_all add: connect_def)

lemma client_query_ROLLBACK:
  "fst (client_query faults us ROLLBACK cl) = (\<not> query_fails faults (cl_sent cl))"
  by (simp add: client_query_def Let_def)

lemma client_query_sent:
  "cl_sent (snd (client_query faults us stmt cl)) = cl_sent cl + 1"
  by (simp add: client_query_def server_rejects_def rolled_back_def Let_def
      split: statement.splits option.splits)

text \<open>
  The database branch of \<^verbatim>\<open>saveAccounts\<close> is atomic on the accounts table: a call
  that does not return \<^verbatim>\<open>true\<close> leaves the table as it was. The statements that
  change rows are sent after \<^verbatim>\<open>BEGIN\<close> was accepted and before \<^verbatim>\<open>COMMIT\<close>, so their
  changes are gone with the block, whether the \<^verbatim>\<open>ROLLBACK\<close> of the handler is
  accepted or not.
\<close>

lemma saveAccounts_atomic:
  assumes db: "isDatabaseEnabled st"
    and failed: "fst (saveAccounts st faults accs encryptionEnabled encryptFn secret uid) \<noteq> Inr True"
  shows "accounts (server (snd (saveAccounts st faults accs encryptionEnabled encryptFn secret uid)))
         = accounts (server st)"
proof (cases "connect_fails faults")
  case True
  with db show ?thesis by (simp add: saveAccounts_def)
next
  case False
  obtain ok cl where t: "saveTransaction faults (users (server st)) encryptionEnabled encryptFn
      secret uid accs (connect st) = (ok, cl)"
    by (cases "saveTransaction faults (users (server st)) encryptionEnabled encryptFn
      secret uid accs (connect st)")
  from failed db False t have ok: "\<not> ok"
    by (auto simp add: saveAccounts_def)
  with t have c: "committed cl = accounts (server st)"
    using saveTransaction_not_committed [of faults "users (server st)" encryptionEnabled
        encryptFn secret uid accs "connect st" cl]
    by (simp add: connect_outside)
  obtain ok' cl' where r: "client_query faults (users (server st)) ROLLBACK cl = (ok', cl')"
    by (cases "client_query faults (users (server st)) ROLLBACK cl")
  from committed_ROLLBACK [of faults "users (server st)" cl] r c
  have "committed cl' = accounts (server st)" by simp
  with db False t ok r show ?thesis
    by (cases ok') (simp_all add: saveAccounts_def release_def)
qed

lemma saveAccounts_v1_atomic:
  assumes db: "isDatabaseEnabled st"
    and failed: "fst (saveAccounts_v1 st faults accs encryptionEnabled encryptFn secret) \<noteq> Inr True"
  shows "accounts (server (snd (saveAccounts_v1 st faults accs encryptionEnabled encryptFn secret)))
         = accounts (server st)"
proof (cases "connect_fails faults")
  case True
  with db show ?thesis by (simp add: saveAccounts_v1_def)
next
  case False
  obtain ok cl where t: "saveTransaction_v1 faults encryptionEnabled encryptFn
      secret accs (connect st) = (ok, cl)"
    by (cases "saveTransaction_v1 faults encryptionEnabled encryptFn secret accs (connect st)")
  from failed db False t have ok: "\<not> ok"
    by (auto simp add: saveAccounts_v1_def)
  with t have c: "committed cl = accounts (server st)"
    using saveTransaction_v1_not_committed [of faults encryptionEnabled
        encryptFn secret accs "connect st" cl]
    by (simp add: connect_outside)
  obtain ok' cl' where r: "client_query faults [] ROLLBACK cl = (ok', cl')"
    by (cases "client_query faults [] ROLLBACK cl")
  from committed_ROLLBACK [of faults "[]" cl] r c
  have "committed cl' = accounts (server st)" by simp
  with db False t ok r show ?thesis
    by (cases ok') (simp_all add: saveAccounts_v1_def release_def)
qed

lemma client_query_INSERT_True:
  "client_query faults us (INSERT uid name token enc) cl = (True, cl') \<Longrightarrow>
   cl_accounts cl' = cl_accounts cl @
       [\<lparr>ar_id = cl_seq cl, ar_user_id = uid, ar_name = name,
         ar_token = token, ar_encrypted_token = enc\<rparr>]
   \<and> cl_seq cl' = cl_seq cl + 1 \<and> \<not> cl_failed cl' \<and> \<not> cl_failed cl"
  by (auto simp add: client_query_def Let_def split: if_splits)

lemma client_query_INSERT_False:
  "client_query faults us (INSERT uid name token enc) cl = (False, cl') \<Longrightarrow>
   cl_begun cl \<noteq> None \<Longrightarrow>
   cl_failed cl' \<or> (cl_accounts cl' = cl_accounts cl \<and> cl_seq cl' = cl_seq cl)"
  by (auto simp add: client_query_def server_rejects_def Let_def split: if_splits)

lemma client_query_DELETE_True:
  "client_query faults us (deleteStatement uid) cl = (True, cl') \<Longrightarrow>
   cl_accounts cl' = filter (\<lambda>r. \<not> deleted uid r) (cl_accounts cl)
   \<and> cl_seq cl' = cl_seq cl \<and> \<not> cl_failed cl'"
  by (auto simp add: client_query_def deleteStatement_def deleted_def given_def Let_def
      split: if_splits option.splits)

lemma client_query_COMMIT_True:
  "client_query faults us COMMIT cl = (True, cl') \<Longrightarrow> \<not> cl_failed cl \<Longrightarrow>
   committed cl' = cl_accounts cl \<and> cl_seq cl' = cl_seq cl"
  by (auto simp add: client_query_def committed_def Let_def split: if_splits)

lemma insertAccount_True:
  assumes run: "insertAccount faults us encryptionEnabled encryptFn secret uid account cl
                 = (True, cl')"
    and inside: "cl_begun cl \<noteq> None"
  shows "\<exists>row. cl_accounts cl' = cl_accounts cl @ [row]
           \<and> (row = insertedRow encryptionEnabled encryptFn secret uid (cl_seq cl) account
              \<or> row = clearRow uid (cl_seq cl) account)
           \<and> cl_seq cl' = cl_seq cl + 1 \<and> \<not> cl_failed cl'"
proof (cases "encryptionEnabled \<and> truthy (acc_token account)")
  case False
  with run have "client_query faults us
      (INSERT uid (acc_name account) (acc_token account) None) cl = (True, cl')"
    by (auto simp add: insertAccount_def)
  from client_query_INSERT_True [OF this] show ?thesis
    by (simp add: clearRow_def)
next
  case True
  show ?thesis
  proof (cases "encryptFn (the (acc_token account)) secret")
    case (Inl e)
    with True run have "client_query faults us
        (INSERT uid (acc_name account) (acc_token account) None) cl = (True, cl')"
      by (simp add: insertAccount_def)
    from client_query_INSERT_True [OF this] show ?thesis
      by (simp add: clearRow_def)
  next
    case (Inr c)
    obtain ok1 cl1 where s1: "client_query faults us
        (INSERT uid (acc_name account) None (Some c)) cl = (ok1, cl1)"
      by (cases "client_query faults us (INSERT uid (acc_name account) None (Some c)) cl")
    show ?thesis
    proof (cases ok1)
      case ok: True
      with True Inr run s1 have "cl' = cl1" by (simp add: insertAccount_def)
      with client_query_INSERT_True [of faults us uid "acc_name account" None "Some c" cl cl1]
        s1 ok True Inr
      show ?thesis by (simp add: insertedRow_def)
    next
      case no: False
      with True Inr run s1 have s2: "client_query faults us
          (INSERT uid (acc_name account) (acc_token account) None) cl1 = (True, cl')"
        by (simp add: insertAccount_def)
      note t = client_query_INSERT_True [OF s2]
      from s1 no inside
      have "cl_failed cl1 \<or> (cl_accounts cl1 = cl_accounts cl \<and> cl_seq cl1 = cl_seq cl)"
        by (simp add: client_query_INSERT_False)
      with t have "cl_accounts cl1 = cl_accounts cl \<and> cl_seq cl1 = cl_seq cl" by blast
      with t show ?thesis by (simp add: clearRow_def)
    qed
  qed
qed

lemma insertAccounts_True:
  assumes run: "insertAccounts faults us encryptionEnabled encryptFn secret uid accs cl
                 = (True, cl')"
    and inside: "cl_begun cl \<noteq> None"
    and sound: "\<not> cl_failed cl"
  shows "\<exists>rows. cl_accounts cl' = cl_accounts cl @ rows
           \<and> storedRows encryptionEnabled encryptFn secret uid (cl_seq cl) accs rows
           \<and> cl_seq cl' = cl_seq cl + length accs \<and> \<not> cl_failed cl'"
  using run inside sound
proof (induction accs arbitrary: cl)
  case Nil
  then show ?case by simp
next
  case (Cons a accs)
  obtain ok1 cl1 where s: "insertAccount faults us encryptionEnabled encryptFn secret uid a cl
      = (ok1, cl1)" by (cases "insertAccount faults us encryptionEnabled encryptFn secret uid a cl")
  with Cons.prems(1) have ok1: ok1 by (cases ok1) simp_all
  with s Cons.prems(1)
  have rest: "insertAccounts faults us encryptionEnabled encryptFn secret uid accs cl1 = (True, cl')"
    by simp
  from s ok1 have s': "insertAccount faults us encryptionEnabled encryptFn secret uid a cl
      = (True, cl1)" by simp
  from insertAccount_True [OF s' Cons.prems(2)]
  obtain row where row: "cl_accounts cl1 = cl_accounts cl @ [row]"
      "row = insertedRow encryptionEnabled encryptFn secret uid (cl_seq cl) a
       \<or> row = clearRow uid (cl_seq cl) a"
      "cl_seq cl1 = cl_seq cl + 1" "\<not> cl_failed cl1"
    by blast
  from insertAccount_begun [OF s'] Cons.prems(2) have b1: "cl_begun cl1 \<noteq> None" by simp
  from Cons.IH [OF rest b1 row(4)]
  obtain rows where rows: "cl_accounts cl' = cl_accounts cl1 @ rows"
      "storedRows encryptionEnabled encryptFn secret uid (cl_seq cl1) accs rows"
      "cl_seq cl' = cl_seq cl1 + length accs" "\<not> cl_failed cl'"
    by blast
  have "cl_accounts cl' = cl_accounts cl @ (row # rows)"
    using row(1) rows(1) by simp
  moreover have "storedRows encryptionEnabled encryptFn secret uid (cl_seq cl) (a # accs)
                   (row # rows)"
    using row(2,3) rows(2) by simp
  moreover have "cl_seq cl' = cl_seq cl + length (a # accs)"
    using row(3) rows(3) by simp
  ultimately show ?case using rows(4) by blast
qed

lemma saveTransaction_True:
  assumes run: "saveTransaction faults us encryptionEnabled encryptFn secret uid accs cl = (True, cl')"
    and outside: "cl_begun cl = None"
  shows "\<exists>rows. committed cl' = filter (\<lambda>r. \<not> deleted uid r) (cl_accounts cl) @ rows
           \<and> storedRows encryptionEnabled encryptFn secret uid (cl_seq cl) accs rows
           \<and> cl_seq cl' = cl_seq cl + length accs"
proof -
  obtain ok1 cl1 where s1: "client_query faults us BEGIN cl = (ok1, cl1)"
    by (cases "client_query faults us BEGIN cl")
  with run have ok1: ok1 by (cases ok1) (simp_all add: saveTransaction_def)
  obtain ok2 cl2 where s2: "client_query faults us (deleteStatement uid) cl1 = (ok2, cl2)"
    by (cases "client_query faults us (deleteStatement uid) cl1")
  with run s1 ok1 have ok2: ok2 by (cases ok2) (simp_all add: saveTransaction_def)
  obtain ok3 cl3 where s3:
    "insertAccounts faults us encryptionEnabled encryptFn secret uid accs cl2 = (ok3, cl3)"
    by (cases "insertAccounts faults us encryptionEnabled encryptFn secret uid accs cl2")
  with run s1 ok1 s2 ok2 have ok3: ok3 by (cases ok3) (simp_all add: saveTransaction_def)
  from run s1 ok1 s2 ok2 s3 ok3 have s4: "client_query faults us COMMIT cl3 = (True, cl')"
    by (simp add: saveTransaction_def)
  from s1 ok1 outside client_query_BEGIN [of faults us cl cl1]
  have b1: "cl_begun cl1 = Some (cl_accounts cl)" "cl_seq cl1 = cl_seq cl"
      "cl_accounts cl1 = cl_accounts cl"
    by simp_all
  from s2 ok2 client_query_DELETE_True [of faults us uid cl1 cl2] b1
  have d: "cl_accounts cl2 = filter (\<lambda>r. \<not> deleted uid r) (cl_accounts cl)"
      "cl_seq cl2 = cl_seq cl" "\<not> cl_failed cl2"
    by simp_all
  from client_query_begun [OF s2 deleteStatement_body] b1
  have b2: "cl_begun cl2 \<noteq> None" by simp
  from s3 ok3 have s3': "insertAccounts faults us encryptionEnabled encryptFn secret uid accs cl2
      = (True, cl3)" by simp
  from insertAccounts_True [OF s3' b2 d(3)]
  obtain rows where rows: "cl_accounts cl3 = cl_accounts cl2 @ rows"
      "storedRows encryptionEnabled encryptFn secret uid (cl_seq cl2) accs rows"
      "cl_seq cl3 = cl_seq cl2 + length accs" "\<not> cl_failed cl3"
    by blast
  from client_query_COMMIT_True [OF s4 rows(4)]
  have "committed cl' = cl_accounts cl3" "cl_seq cl' = cl_seq cl3" by simp_all
  with rows d show ?thesis by simp
qed

text \<open>
  What a call that returns \<^verbatim>\<open>true\<close> has committed: the rows of the scope are gone,
  and there is one new row for each account, in order, under consecutive keys.
\<close>

lemma saveAccounts_True:
  assumes db: "isDatabaseEnabled st"
    and saved: "saveAccounts st faults accs encryptionEnabled encryptFn secret uid = (Inr True, st')"
  shows "\<exists>rows. st' = st\<lparr>server := (server st)\<lparr>
                    accounts := filter (\<lambda>r. \<not> deleted uid r) (accounts (server st)) @ rows,
                    accounts_id_seq := accounts_id_seq (server st) + length accs\<rparr>\<rparr>
           \<and> storedRows encryptionEnabled encryptFn secret uid (accounts_id_seq (server st))
               accs rows"
proof -
  from db saved have c: "\<not> connect_fails faults"
    by (auto simp add: saveAccounts_def)
  obtain ok cl where t: "saveTransaction faults (users (server st)) encryptionEnabled encryptFn
      secret uid accs (connect st) = (ok, cl)"
    by (cases "saveTransaction faults (users (server st)) encryptionEnabled encryptFn
      secret uid accs (connect st)")
  from db c saved t have ok: ok
    by (cases ok) (auto simp add: saveAccounts_def split: prod.splits bool.splits)
  with db c saved t have st': "st' = release st cl"
    by (simp add: saveAccounts_def)
  from t ok have t': "saveTransaction faults (users (server st)) encryptionEnabled encryptFn
      secret uid accs (connect st) = (True, cl)" by simp
  from saveTransaction_True [OF t' connect_outside(1)]
  obtain rows where rows:
      "committed cl = filter (\<lambda>r. \<not> deleted uid r) (cl_accounts (connect st)) @ rows"
      "storedRows encryptionEnabled encryptFn secret uid (cl_seq (connect st)) accs rows"
      "cl_seq cl = cl_seq (connect st) + length accs"
    by blast
  then show ?thesis
    unfolding st' by (auto simp add: release_def connect_outside)
qed

text \<open>
  Claim C4 at inputs where the code departs from it. The table holds the account
  \<^verbatim>\<open>old\<close> of user 1, and two accounts are saved for that user.

  First, the server rejects the second \<^verbatim>\<open>INSERT\<close>, and the \<^verbatim>\<open>ROLLBACK\<close> that the
  handler then sends is rejected too, the connection being lost. The handler awaits
  the \<^verbatim>\<open>ROLLBACK\<close> before its \<^verbatim>\<open>return false\<close> and outside any \<^verbatim>\<open>try\<close>, so the call
  ends with that exception and returns nothing, in both revisions; the table is as it
  was.

  Second, encryption is on and the driver rejects the \<^verbatim>\<open>INSERT\<close> of the first
  ciphertext. The inner \<^verbatim>\<open>try\<close>, written for a failure of \<^verbatim>\<open>encryptFn\<close>, catches the
  rejection, its handler inserts the clear token, and the call commits and returns
  \<^verbatim>\<open>true\<close> although a step has failed: the old row is replaced, and the first new row
  holds its token in clear.
\<close>

theorem saveAccounts_failed_step:
  "(let S = (database_mode :: (string, unit) storage)\<lparr>server := fresh_server\<lparr>
               users := [\<lparr>usr_id = 1, usr_username = ''alice'', usr_passwordHash = ''h1'',
                          usr_role = ''user'', usr_createdAt = 10\<rparr>],
               users_id_seq := 2,
               accounts := [\<lparr>ar_id = 1, ar_user_id = Some 1, ar_name = ''old'',
                             ar_token = Some ''t0'', ar_encrypted_token = None\<rparr>],
               accounts_id_seq := 2\<rparr>\<rparr>;
        L = [\<lparr>acc_name = ''a'', acc_token = Some ''t1'', acc_encryptedToken = None\<rparr>,
             \<lparr>acc_name = ''b'', acc_token = Some ''t2'', acc_encryptedToken = None\<rparr>];
        F = \<lparr>connect_fails = False, query_fails = (\<lambda>k. k = 3 \<or> k = 4),
             by_driver = (\<lambda>k. k = 4)\<rparr>;
        G = \<lparr>connect_fails = False, query_fails = (\<lambda>k. k = 2), by_driver = (\<lambda>k. k = 2)\<rparr>
    in fst (saveAccounts S F L False (\<lambda>t k. Inr t) ''key'' (Some 1)) = Inl DbError
       \<and> accounts (server (snd (saveAccounts S F L False (\<lambda>t k. Inr t) ''key'' (Some 1))))
           = accounts (server S)
       \<and> fst (saveAccounts_v1 S F L False (\<lambda>t k. Inr t) ''key'') = Inl DbError
       \<and> fst (saveAccounts S G L True (\<lambda>t k. Inr (''enc:'' @ t)) ''key'' (Some 1)) = Inr True
       \<and> accounts (server (snd (saveAccounts S G L True (\<lambda>t k. Inr (''enc:'' @ t)) ''key''
                                   (Some 1))))
           = [\<lparr>ar_id = 2, ar_user_id = Some 1, ar_name = ''a'',
               ar_token = Some ''t1'', ar_encrypted_token = None\<rparr>,
              \<lparr>ar_id = 3, ar_user_id = Some 1, ar_name = ''b'',
               ar_token = None, ar_encrypted_token = Some ''enc:t2''\<rparr>])"
  by (simp add: Let_def saveAccounts_def saveTransaction_def saveAccounts_v1_def
      saveTransaction_v1_def client_query_def
      server_rejects_def rolled_back_def connect_def release_def committed_def
      insertAccount_def deleteStatement_def given_def references_def truthy_def
      isDatabaseEnabled_def database_mode_def fresh_server_def)


section \<open>Saving, then loading accounts\<close>

lemma truthy_Some: "truthy v \<Longrightarrow> v = Some (the v)"
  by (cases v) (simp_all add: truthy_def)

lemma decryptRow_insertedRow:
  assumes "\<forall>t c. encryptFn t secret = Inr c \<longrightarrow> decryptFn c secret = Inr t"
    and "acc_encryptedToken a = None"
  shows "decryptRow encryptionEnabled decryptFn secret
           (insertedRow encryptionEnabled encryptFn secret uid k a) = a"
proof (cases "encryptionEnabled \<and> truthy (acc_token a)")
  case True
  then have t: "acc_token a = Some (the (acc_token a))" by (simp add: truthy_Some)
  show ?thesis
  proof (cases "encryptFn (the (acc_token a)) secret")
    case (Inl e)
    with True assms(2) show ?thesis
      by (simp add: decryptRow_def insertedRow_def)
  next
    case (Inr c)
    with assms(1) have "decryptFn c secret = Inr (the (acc_token a))" by blast
    with True Inr assms(2) t show ?thesis
      by (simp add: decryptRow_def insertedRow_def)
  qed
next
  case False
  with assms(2) show ?thesis
    by (auto simp add: decryptRow_def insertedRow_def)
qed

lemma decryptAccount_encryptAccount:
  assumes "\<forall>t c. encryptFn t secret = Inr c \<longrightarrow> decryptFn c secret = Inr t"
    and "acc_encryptedToken a = None"
  shows "decryptAccount decryptFn secret (encryptAccount encryptFn secret a) = a"
proof (cases "truthy (acc_token a)")
  case True
  then have t: "acc_token a = Some (the (acc_token a))" by (simp add: truthy_Some)
  show ?thesis
  proof (cases "encryptFn (the (acc_token a)) secret")
    case (Inl e)
    with True assms(2) show ?thesis
      by (simp add: decryptAccount_def encryptAccount_def)
  next
    case (Inr c)
    with assms(1) have "decryptFn c secret = Inr (the (acc_token a))" by blast
    with True Inr assms(2) t show ?thesis
      by (simp add: decryptAccount_def encryptAccount_def)
  qed
next
  case False
  with assms(2) show ?thesis
    by (simp add: decryptAccount_def encryptAccount_def)
qed

lemma decryptRow_clearRow:
  "acc_encryptedToken a = None \<Longrightarrow>
   decryptRow encryptionEnabled decryptFn secret (clearRow uid k a) = a"
  by (simp add: decryptRow_def clearRow_def)

lemma storedRows_ids:
  "storedRows encryptionEnabled encryptFn secret uid k accs rows \<Longrightarrow>
   map ar_id rows = [k ..< k + length accs]"
proof (induction accs arbitrary: k rows)
  case Nil
  then show ?case by simp
next
  case (Cons a accs)
  then obtain row rest where r: "rows = row # rest" by (cases rows) simp_all
  with Cons.prems have h: "ar_id row = k"
    by (auto simp add: insertedRow_def clearRow_def split: sum.splits if_splits)
  from Cons.prems r have "storedRows encryptionEnabled encryptFn secret uid (Suc k) accs rest"
    by simp
  from Cons.IH [OF this] have t: "map ar_id rest = [Suc k ..< Suc k + length accs]" .
  have u: "[k ..< k + length (a # accs)] = k # [Suc k ..< Suc k + length accs]"
    by (subst upt_rec) simp
  show ?case
    unfolding r u using h t by simp
qed

lemma storedRows_owner:
  "storedRows encryptionEnabled encryptFn secret uid k accs rows \<Longrightarrow> r \<in> set rows \<Longrightarrow>
   ar_user_id r = uid"
proof (induction accs arbitrary: k rows)
  case Nil
  then show ?case by simp
next
  case (Cons a accs)
  then obtain row rest where rw: "rows = row # rest" by (cases rows) simp_all
  with Cons.prems(1) have h: "ar_user_id row = uid"
    by (auto simp add: insertedRow_def clearRow_def split: sum.splits if_splits)
  from Cons.prems(1) rw have s: "storedRows encryptionEnabled encryptFn secret uid (Suc k) accs rest"
    by simp
  from Cons.prems(2) rw have "r = row \<or> r \<in> set rest" by simp
  with h Cons.IH [OF s] show ?case by blast
qed

lemma decrypt_storedRows:
  assumes rt: "\<forall>t c. encryptFn t secret = Inr c \<longrightarrow> decryptFn c secret = Inr t"
    and plain: "\<forall>a \<in> set accs. acc_encryptedToken a = None"
    and stored: "storedRows encryptionEnabled encryptFn secret uid k accs rows"
  shows "map (decryptRow encryptionEnabled decryptFn secret) rows = accs"
proof -
  have one: "decryptRow encryptionEnabled decryptFn secret
               (insertedRow encryptionEnabled encryptFn secret uid k a) = a"
    if "acc_encryptedToken a = None" for a k
    by (rule decryptRow_insertedRow) (use rt that in blast)+
  from plain stored show ?thesis
  proof (induction accs arbitrary: k rows)
    case Nil
    then show ?case by simp
  next
    case (Cons a accs)
    then obtain row rest where rw: "rows = row # rest" by (cases rows) simp_all
    from Cons.prems(1) have pa: "acc_encryptedToken a = None" by simp
    from Cons.prems(2) rw
    have "row = insertedRow encryptionEnabled encryptFn secret uid k a \<or> row = clearRow uid k a"
      by simp
    with one [OF pa] decryptRow_clearRow [OF pa]
    have h: "decryptRow encryptionEnabled decryptFn secret row = a" by auto
    from Cons.prems(2) rw
    have s: "storedRows encryptionEnabled encryptFn secret uid (Suc k) accs rest" by simp
    from Cons.prems(1) have "\<forall>a \<in> set accs. acc_encryptedToken a = None" by simp
    from Cons.IH [OF this s] h show ?case unfolding rw by simp
  qed
qed

lemma sort_storedRows:
  "storedRows encryptionEnabled encryptFn secret uid k accs rows \<Longrightarrow>
   sort_key ar_id rows = rows"
  by (rule sort_key_id_if_sorted) (simp add: storedRows_ids)

lemma selectAccounts_after_save:
  assumes scope: "given uid \<or> (\<forall>r \<in> set old. ar_user_id r = None)"
    and stored: "storedRows encryptionEnabled encryptFn secret uid k accs rows"
  shows "selectAccounts uid (filter (\<lambda>r. \<not> deleted uid r) old @ rows) = rows"
proof (cases "given uid")
  case True
  have a: "filter (\<lambda>r. \<not> deleted uid r \<and> ar_user_id r = uid) old = []"
    using True by (auto simp add: deleted_def filter_empty_conv)
  have b: "filter (\<lambda>r. ar_user_id r = uid) rows = rows"
    using storedRows_owner [OF stored] by (simp add: filter_id_conv)
  from True show ?thesis
    by (simp add: selectAccounts_def a b sort_storedRows [OF stored])
next
  case False
  with scope have "\<forall>r \<in> set old. ar_user_id r = None" by simp
  with False have "filter (\<lambda>r. \<not> deleted uid r) old = []"
    by (auto simp add: deleted_def filter_empty_conv)
  with False show ?thesis
    by (simp add: selectAccounts_def sort_storedRows [OF stored])
qed

text \<open>
  Where loading returns what was saved. The accounts are those of callers (no
  ciphertext field), the cipher gives back what it encrypted, the save returned
  \<^verbatim>\<open>true\<close> and the query of the load is answered. Then \<^verbatim>\<open>loadAccounts\<close> returns
  the saved list, in order, with encryption on or off: in the file backend for every
  \<^verbatim>\<open>userId\<close>; in the database for every \<^verbatim>\<open>userId\<close> that is given, and without one
  when the table held no row owned by a user.
\<close>

lemma saveAccounts_loadAccounts:
  assumes rt: "\<forall>t c. encryptFn t secret = Inr c \<longrightarrow> decryptFn c secret = Inr t"
    and plain: "\<forall>a \<in> set accs. acc_encryptedToken a = None"
    and saved: "saveAccounts st faults accs encryptionEnabled encryptFn secret uid = (Inr True, st')"
    and scope: "isDatabaseEnabled st \<longrightarrow>
                  given uid \<or> (\<forall>r \<in> set (accounts (server st)). ar_user_id r = None)"
    and answered: "\<not> query_fails faults' 0"
  shows "loadAccounts st' faults' encryptionEnabled decryptFn secret uid = accs"
proof (cases "isDatabaseEnabled st")
  case True
  from saveAccounts_True [OF True saved]
  obtain rows where st': "st' = st\<lparr>server := (server st)\<lparr>
                 accounts := filter (\<lambda>row. \<not> deleted uid row) (accounts (server st)) @ rows,
                 accounts_id_seq := accounts_id_seq (server st) + length accs\<rparr>\<rparr>"
    and stored: "storedRows encryptionEnabled encryptFn secret uid (accounts_id_seq (server st))
                   accs rows"
    by blast
  from True have db': "isDatabaseEnabled st'"
    unfolding st' by (simp add: isDatabaseEnabled_def)
  from scope True have sc: "given uid \<or> (\<forall>r \<in> set (accounts (server st)). ar_user_id r = None)"
    by simp
  have dec: "map (decryptRow encryptionEnabled decryptFn secret) rows = accs"
    by (rule decrypt_storedRows [where encryptFn = encryptFn and uid = uid
          and k = "accounts_id_seq (server st)"])
      (use rt plain stored in blast)+
  show ?thesis
    using db' answered
    by (simp add: loadAccounts_def st' selectAccounts_after_save [OF sc stored] dec)
next
  case False
  with saved have st': "st' = st\<lparr>files := (files st)\<lparr>ACCOUNTS_FILE := Parsed
      (if encryptionEnabled then map (encryptAccount encryptFn secret) accs else accs)\<rparr>\<rparr>"
    by (auto simp add: saveAccounts_def Let_def split: if_splits)
  from False have f': "\<not> isDatabaseEnabled st'"
    unfolding st' by (simp add: isDatabaseEnabled_def)
  have one: "decryptAccount decryptFn secret (encryptAccount encryptFn secret a) = a"
    if "acc_encryptedToken a = None" for a
    by (rule decryptAccount_encryptAccount) (use rt that in blast)+
  have "map (decryptAccount decryptFn secret \<circ> encryptAccount encryptFn secret) accs = accs"
    using plain by (induction accs) (simp_all add: one)
  with f' show ?thesis
    by (simp add: loadAccounts_def st')
qed


text \<open>
  Claim C3 at an input where the code departs from it. In the database, a user is
  created and one account is saved for that user; then the list holding the single
  account \<^verbatim>\<open>mine\<close> is saved without \<^verbatim>\<open>userId\<close>, and the save returns \<^verbatim>\<open>true\<close>.
  \<^verbatim>\<open>loadAccounts\<close> without \<^verbatim>\<open>userId\<close> then returns two accounts, the user's and
  \<^verbatim>\<open>mine\<close>: the \<^verbatim>\<open>SELECT\<close> has no \<^verbatim>\<open>WHERE\<close> clause in that case, while the
  \<^verbatim>\<open>DELETE\<close> of \<^verbatim>\<open>saveAccounts\<close> is restricted to \<^verbatim>\<open>user_id IS NULL\<close>.
\<close>

theorem loadAccounts_global_scope_mismatch:
  "(let s1 = snd (createUser (database_mode :: (string, unit) storage) no_faults 10
                    ''alice'' ''h1'' None);
        theirs = \<lparr>acc_name = ''theirs'', acc_token = Some ''sk-theirs'',
                  acc_encryptedToken = None\<rparr>;
        mine = \<lparr>acc_name = ''mine'', acc_token = Some ''sk-mine'', acc_encryptedToken = None\<rparr>;
        s2 = snd (saveAccounts s1 no_faults [theirs] False (\<lambda>t k. Inr t) ''key'' (Some 1));
        s3 = snd (saveAccounts s2 no_faults [mine] False (\<lambda>t k. Inr t) ''key'' None)
    in fst (createUser (database_mode :: (string, unit) storage) no_faults 10
              ''alice'' ''h1'' None) = Inr 1
       \<and> fst (saveAccounts s1 no_faults [theirs] False (\<lambda>t k. Inr t) ''key'' (Some 1)) = Inr True
       \<and> fst (saveAccounts s2 no_faults [mine] False (\<lambda>t k. Inr t) ''key'' None) = Inr True
       \<and> loadAccounts s3 no_faults False (\<lambda>c k. Inr c) ''key'' None = [theirs, mine]
       \<and> loadAccounts s3 no_faults False (\<lambda>c k. Inr c) ''key'' None \<noteq> [mine]
       \<and> loadAccounts s3 no_faults False (\<lambda>c k. Inr c) ''key'' (Some 1) = [theirs])"
  by (simp add: Let_def createUser_def saveAccounts_def saveTransaction_def client_query_def
      connect_def release_def committed_def
      insertAccount_def deleteStatement_def given_def references_def loadAccounts_def
      selectAccounts_def decryptRow_def truthy_def isDatabaseEnabled_def database_mode_def
      fresh_server_def no_faults_def)


end
